theory Spec2Isabelle
  imports Complex_Main "HOL-Library.AList" "HOL-Library.Multiset" "HOL-Library.Product_Lexorder"
begin

section \<open>Battle.py: a shallow embedding\<close>

text \<open>
  Python floats are read as real numbers (exact arithmetic). Unit objects are compared
  by identity in the source (\<open>eq=False\<close>), so a unit is an address into a store of
  unit records, and armies and fight pairs hold addresses. Every \<open>raise\<close>, failed
  \<open>assert\<close>, missing dictionary key and built-in exception is a value \<open>Inl e\<close>.
  Trace output (\<open>print_turn\<close>, \<open>print_result\<close>) changes no state and is left out.
\<close>

subsection \<open>Errors and sequencing\<close>

datatype error = ValueError | AssertionError | KeyError | ZeroDivisionError | TypeError

definition bind_res :: "error + 'a \<Rightarrow> ('a \<Rightarrow> error + 'b) \<Rightarrow> error + 'b" where
  "bind_res m f = (case m of Inl e \<Rightarrow> Inl e | Inr x \<Rightarrow> f x)"

fun fold_res :: "('a \<Rightarrow> 's \<Rightarrow> error + 's) \<Rightarrow> 'a list \<Rightarrow> 's \<Rightarrow> error + 's" where
  "fold_res f [] s = Inr s"
| "fold_res f (x # xs) s = bind_res (f x s) (fold_res f xs)"

subsection \<open>Module constants\<close>

definition POS_DEC_DIG :: nat where "POS_DEC_DIG = 3"
definition RESERVE_DIST_BEHIND :: real where "RESERVE_DIST_BEHIND = 2"
definition MIN_DEPLOY_DIST :: real where "MIN_DEPLOY_DIST = 1"
definition SIDE_RANGE_PENALTY :: real where "SIDE_RANGE_PENALTY = 0.5"
definition BASE_SPEED :: real where "BASE_SPEED = 20"
definition CHARGE_DISTANCE :: real where "CHARGE_DISTANCE = 2"
definition HALT_POWER_GRADIENT :: real where "HALT_POWER_GRADIENT = 20"
definition POWER_SCALE :: real where "POWER_SCALE = 50"
definition LOW_MORALE_POWER :: real where "LOW_MORALE_POWER = 200"
definition TERRAIN_POWER :: real where "TERRAIN_POWER = 300"
definition HEIGHT_DIF_POWER :: real where "HEIGHT_DIF_POWER = 20"
definition RESERVES_POWER :: real where "RESERVES_POWER = 1 / 6"
definition RESERVES_SOFT_CAP :: real where "RESERVES_SOFT_CAP = 500"
definition PURSUE_MORALE :: real where "PURSUE_MORALE = - 0.25"
definition FILE_EMPTY :: real where "FILE_EMPTY = 0"
definition FILE_SUPPORTED :: real where "FILE_SUPPORTED = 0.1"
definition FILE_VULNERABLE :: real where "FILE_VULNERABLE = - 0.2"

text \<open>\<open>Unit.EPS = 0.5 * (0.1 ** POS_DEC_DIG)\<close>.\<close>

definition EPS :: real where "EPS = 0.5 * (0.1 ^ POS_DEC_DIG)"

text \<open>
  \<open>Config.DELTA_T\<close> is imported from a module outside the sources at hand, and the
  iteration order of a Python \<open>set\<close> of unit objects depends on object hashes. Both are
  parameters: \<open>set_order env ks\<close> is the order in which a set built by inserting \<open>ks\<close>
  (duplicates dropped) is traversed; \<open>set.pop()\<close> takes the first element of that order.
\<close>

record Env =
  DELTA_T :: real
  set_order :: "nat list \<Rightarrow> nat list"

subsection \<open>Enumerations\<close>

datatype BattleOutcome = BOTH_LOST | WIN_1 | WIN_2 | STALEMATE

datatype Stance = AGGR | NEUT | DEFN

fun stance_value :: "Stance \<Rightarrow> int" where
  "stance_value AGGR = 0"
| "stance_value NEUT = 1"
| "stance_value DEFN = 2"

text \<open>\<open>min(a, b)\<close> on the integer enumeration: the first argument wins a tie.\<close>

definition min_stance :: "Stance \<Rightarrow> Stance \<Rightarrow> Stance" where
  "min_stance a b = (if stance_value b < stance_value a then b else a)"

subsection \<open>The landscape (an external collaborator)\<close>

text \<open>
  \<open>Geography.Landscape\<close> is not part of the sources; the four queries the battle makes
  are fields of a record. \<open>get_roughness l f p\<close> stands for
  \<open>l.get_terrain(f, p).roughness\<close>.
\<close>

record Landscape =
  get_height :: "int \<Rightarrow> real \<Rightarrow> real"
  get_roughness :: "int \<Rightarrow> real \<Rightarrow> real"
  get_mean_scaled_roughness :: "int \<Rightarrow> real \<Rightarrow> real \<Rightarrow> real"
  get_mean_cover :: "int \<Rightarrow> real \<Rightarrow> real"

subsection \<open>UnitType and Unit\<close>

record UnitType =
  name_t :: string
  power_t :: real
  rigidity_t :: real
  speed_t :: real
  att_range_t :: real

text \<open>The validators of the attrs class, checked when a \<open>UnitType\<close> is constructed.\<close>

definition valid_unit_type :: "UnitType \<Rightarrow> bool" where
  "valid_unit_type t = (rigidity_t t > - 1 \<and> speed_t t > 0 \<and> att_range_t t \<ge> 1)"

definition smoothness_desire_t :: "UnitType \<Rightarrow> real" where
  "smoothness_desire_t t = rigidity_t t + (speed_t t - 1)"

record Unit =
  unit_type :: UnitType
  stance :: Stance
  file_u :: int
  init_pos :: real
  position :: real
  morale :: real
  halted :: bool
  pursuing :: bool

text \<open>\<open>Unit(unit_type, stance, file)\<close> with the defaults of the other fields.\<close>

definition new_unit :: "UnitType \<Rightarrow> Stance \<Rightarrow> int \<Rightarrow> Unit" where
  "new_unit t s f = \<lparr>unit_type = t, stance = s, file_u = f, init_pos = 0, position = 0,
     morale = 1, halted = False, pursuing = False\<rparr>"

definition power_u :: "Unit \<Rightarrow> real" where "power_u u = power_t (unit_type u)"
definition speed :: "Unit \<Rightarrow> real" where "speed u = speed_t (unit_type u)"
definition rigidity :: "Unit \<Rightarrow> real" where "rigidity u = rigidity_t (unit_type u)"
definition att_range :: "Unit \<Rightarrow> real" where "att_range u = att_range_t (unit_type u)"
definition smoothness_desire :: "Unit \<Rightarrow> real" where
  "smoothness_desire u = smoothness_desire_t (unit_type u)"

definition moving_to_pos :: "Unit \<Rightarrow> bool" where "moving_to_pos u = (init_pos u < 0)"
definition moving_to_neg :: "Unit \<Rightarrow> bool" where "moving_to_neg u = (init_pos u > 0)"
definition at_home :: "Unit \<Rightarrow> bool" where "at_home u = (position u = init_pos u)"
definition at_end :: "Unit \<Rightarrow> bool" where "at_end u = (position u = - init_pos u)"

definition get_dist_to :: "Unit \<Rightarrow> real \<Rightarrow> real" where
  "get_dist_to u p = \<bar>position u - p\<bar>"

definition is_in_front :: "Unit \<Rightarrow> Unit \<Rightarrow> bool" where
  "is_in_front u v = (file_u u = file_u v)"

definition get_eff_range_against :: "Unit \<Rightarrow> Unit \<Rightarrow> real" where
  "get_eff_range_against u v =
     (if is_in_front u v then att_range u else att_range u - SIDE_RANGE_PENALTY)"

text \<open>The \<open>file is None\<close> guard of the source cannot fire: a file is always an integer.\<close>

definition is_in_range_of :: "Unit \<Rightarrow> Unit \<Rightarrow> bool" where
  "is_in_range_of u v = (get_dist_to u (position v) \<le> get_eff_range_against u v + EPS)"

definition get_position_to_attack_target :: "Unit \<Rightarrow> Unit \<Rightarrow> real" where
  "get_position_to_attack_target u v =
     (let eff_range = get_eff_range_against u v - EPS in
      if position u < position v - eff_range then position v - eff_range
      else if position u > position v + eff_range then position v + eff_range
      else position u)"

definition get_signed_distance_to_unit :: "Unit \<Rightarrow> Unit \<Rightarrow> real" where
  "get_signed_distance_to_unit u v =
     (let d = position v - position u in if moving_to_pos u then d else - d)"

definition unit_get_height :: "Unit \<Rightarrow> Landscape \<Rightarrow> real" where
  "unit_get_height u l = get_height l (file_u u) (position u)"

definition get_eff_speed :: "Unit \<Rightarrow> Landscape \<Rightarrow> real" where
  "get_eff_speed u l = speed u * (1 - get_roughness l (file_u u) (position u))"

definition get_power_from_terrain :: "Unit \<Rightarrow> Landscape \<Rightarrow> real" where
  "get_power_from_terrain u l =
     (let rghn = get_mean_scaled_roughness l (file_u u) (position u) (smoothness_desire u)
      in rghn * TERRAIN_POWER + unit_get_height u l * HEIGHT_DIF_POWER)"

definition is_charge_range_of :: "Unit \<Rightarrow> real \<Rightarrow> bool" where
  "is_charge_range_of u target_pos = (get_dist_to u target_pos < speed u * CHARGE_DISTANCE)"

text \<open>
  \<open>round(x, n)\<close> on exact reals: the nearest multiple of \<open>10 ** -n\<close>, a tie going to the
  even multiple.
\<close>

definition py_round :: "real \<Rightarrow> nat \<Rightarrow> real" where
  "py_round x n =
     (let y = x * 10 ^ n; f = \<lfloor>y\<rfloor>; d = y - of_int f
      in of_int (if d < 1 / 2 then f else if 1 / 2 < d then f + 1
                 else if even f then f else f + 1) / 10 ^ n)"

definition set_up :: "real \<Rightarrow> Unit \<Rightarrow> Unit" where
  "set_up ip u =
     (let u1 = u\<lparr>init_pos := ip\<rparr>
      in u1\<lparr>position := ip + EPS * (if moving_to_pos u1 then 1 else - 1)\<rparr>)"

definition cap_position :: "Unit \<Rightarrow> Unit" where
  "cap_position u =
     (let u1 = u\<lparr>position := max (- \<bar>init_pos u\<bar>) (min (position u) \<bar>init_pos u\<bar>)\<rparr>
      in u1\<lparr>position := py_round (position u1) POS_DEC_DIG\<rparr>)"

definition move_by :: "real \<Rightarrow> Unit \<Rightarrow> Unit" where
  "move_by d u = cap_position (u\<lparr>position := position u + d\<rparr>)"

definition move_to :: "real \<Rightarrow> Unit \<Rightarrow> Unit" where
  "move_to p u = cap_position (u\<lparr>position := p\<rparr>)"

definition confirm_move :: "real \<Rightarrow> real \<Rightarrow> real \<Rightarrow> real \<Rightarrow> Unit \<Rightarrow> Unit" where
  "confirm_move gradient old_pos old_lag new_lag u =
     (if get_dist_to u (init_pos u) < MIN_DEPLOY_DIST then u\<lparr>halted := False\<rparr>
      else if old_lag < 1 \<and> 1 \<le> new_lag then u\<lparr>position := old_pos, halted := True\<rparr>
      else
        (let new_lag1 = min new_lag (1 - EPS);
             gradient1 = gradient * (if old_lag < new_lag1 then 1 / (1 - new_lag1) else 1)
         in if gradient1 > HALT_POWER_GRADIENT then u\<lparr>position := old_pos, halted := True\<rparr>
            else if position u \<noteq> old_pos then u\<lparr>halted := False\<rparr>
            else u))"

definition move_towards :: "Env \<Rightarrow> real \<Rightarrow> real \<Rightarrow> Unit \<Rightarrow> Unit" where
  "move_towards env target spd u =
     (if position u < target
        then move_to (min (position u + spd * BASE_SPEED * DELTA_T env) target) u
      else if position u > target
        then move_to (max (position u - spd * BASE_SPEED * DELTA_T env) target) u
      else u)"

definition deploy_close_to :: "int \<Rightarrow> real \<Rightarrow> Unit \<Rightarrow> Unit" where
  "deploy_close_to f ref_pos u =
     (let u1 = u\<lparr>file_u := f\<rparr>;
          p = (if moving_to_pos u1
               then max (ref_pos - RESERVE_DIST_BEHIND) (init_pos u1 + MIN_DEPLOY_DIST)
               else min (ref_pos + RESERVE_DIST_BEHIND) (init_pos u1 - MIN_DEPLOY_DIST))
      in move_to p u1)"

definition move_safely_away_from_pos :: "real \<Rightarrow> Unit \<Rightarrow> Unit" where
  "move_safely_away_from_pos ref_pos u =
     (if position u < ref_pos + 1 \<and> moving_to_neg u then move_to (ref_pos + 1) u
      else if position u > ref_pos - 1 \<and> moving_to_pos u then move_to (ref_pos - 1) u
      else u)"

subsection \<open>Python built-ins used by the armies\<close>

definition py_div :: "real \<Rightarrow> real \<Rightarrow> error + real" where
  "py_div x y = (if y = 0 then Inl ZeroDivisionError else Inr (x / y))"

definition py_log :: "real \<Rightarrow> error + real" where
  "py_log x = (if x \<le> 0 then Inl ValueError else Inr (ln x))"

text \<open>\<open>min(xs, key=k, default=None)\<close>: the first element whose key is least.\<close>

fun min_by :: "('a \<Rightarrow> real) \<Rightarrow> 'a list \<Rightarrow> 'a option" where
  "min_by k [] = None"
| "min_by k (x # xs) = Some (fold (\<lambda>y m. if k y < k m then y else m) xs x)"

text \<open>\<open>min(xs)\<close> without a default raises on an empty sequence.\<close>

fun py_min :: "real list \<Rightarrow> error + real" where
  "py_min [] = Inl ValueError"
| "py_min (x # xs) = Inr (fold min xs x)"

fun max_default :: "real list \<Rightarrow> real \<Rightarrow> real" where
  "max_default [] d = d"
| "max_default (x # xs) d = fold max xs x"

subsection \<open>Army\<close>

text \<open>
  \<open>file_units\<close> is a Python dictionary: an association list in insertion order, read
  with \<open>map_of\<close>, written with \<open>AList.update\<close> (a new key goes to the end) and
  \<open>AList.delete\<close>. The three collections hold addresses of units.
\<close>

record Army =
  name_a :: string
  stance_a :: Stance
  color :: string
  file_units :: "(int \<times> nat) list"
  reserves :: "nat list"
  removed :: "nat list"

definition deployed_units :: "Army \<Rightarrow> nat list" where
  "deployed_units a = map snd (file_units a)"

definition units :: "Army \<Rightarrow> nat list" where
  "units a = deployed_units a @ reserves a @ removed a"

definition defeated :: "Army \<Rightarrow> bool" where
  "defeated a = (file_units a = [])"

definition reserve_total :: "(nat \<Rightarrow> Unit) \<Rightarrow> Army \<Rightarrow> real" where
  "reserve_total st a = sum_list (map (\<lambda>i. power_u (st i)) (reserves a))"

definition reserve_power :: "(nat \<Rightarrow> Unit) \<Rightarrow> Army \<Rightarrow> error + real" where
  "reserve_power st a =
     bind_res (py_log (1 + reserve_total st a / RESERVES_SOFT_CAP))
       (\<lambda>l. Inr (RESERVES_POWER * RESERVES_SOFT_CAP * l))"

definition get_army_reach :: "(nat \<Rightarrow> Unit) \<Rightarrow> Army \<Rightarrow> real" where
  "get_army_reach st a =
     1 + max_default (map (\<lambda>i. att_range (st i) + 2 * speed (st i)) (deployed_units a)) 3"

definition is_file_active :: "Army \<Rightarrow> int \<Rightarrow> bool" where
  "is_file_active a f = (map_of (file_units a) f \<noteq> None)"

definition is_file_towards_centre_active :: "Army \<Rightarrow> int \<Rightarrow> error + bool" where
  "is_file_towards_centre_active a f =
     (if f = 0 then Inl AssertionError
      else Inr (is_file_active a (if f < 0 then f + 1 else f - 1)))"

definition unit_at :: "Army \<Rightarrow> int \<Rightarrow> nat list" where
  "unit_at a f = (case map_of (file_units a) f of None \<Rightarrow> [] | Some u \<Rightarrow> [u])"

definition get_neighbors :: "Army \<Rightarrow> int \<Rightarrow> bool \<Rightarrow> nat list" where
  "get_neighbors a f include_self =
     (if include_self then unit_at a f else []) @ unit_at a (f - 1) @ unit_at a (f + 1)"

definition get_minimum_laggard_speed ::
  "(nat \<Rightarrow> Unit) \<Rightarrow> Army \<Rightarrow> nat \<Rightarrow> Landscape \<Rightarrow> error + real" where
  "get_minimum_laggard_speed st a u l =
     py_min (map (\<lambda>x. get_eff_speed (st x) l)
       (filter (\<lambda>x. get_dist_to (st x) (init_pos (st x)) \<le> get_dist_to (st u) (init_pos (st u)))
          (deployed_units a)))"

definition get_cohesive_speed ::
  "(nat \<Rightarrow> Unit) \<Rightarrow> Army \<Rightarrow> nat \<Rightarrow> real \<Rightarrow> Landscape \<Rightarrow> error + real" where
  "get_cohesive_speed st a u pos_target l =
     (if moving_to_pos (st u) \<and> pos_target < position (st u) then Inr (get_eff_speed (st u) l)
      else if moving_to_neg (st u) \<and> pos_target > position (st u)
        then Inr (get_eff_speed (st u) l)
      else get_minimum_laggard_speed st a u l)"

definition get_blocking_unit :: "(nat \<Rightarrow> Unit) \<Rightarrow> Army \<Rightarrow> nat \<Rightarrow> nat option" where
  "get_blocking_unit st a enemy =
     min_by (\<lambda>u. get_dist_to (st u) (position (st enemy))
                + (if is_in_front (st enemy) (st u) then 0 else SIDE_RANGE_PENALTY))
       (get_neighbors a (file_u (st enemy)) True)"

definition get_backwards_neighbor :: "(nat \<Rightarrow> Unit) \<Rightarrow> Army \<Rightarrow> nat \<Rightarrow> nat option" where
  "get_backwards_neighbor st a ref_unit =
     (case min_by (\<lambda>u. get_dist_to (st u) (init_pos (st u)))
             (get_neighbors a (file_u (st ref_unit)) True) of
        None \<Rightarrow> None
      | Some u \<Rightarrow> if u = ref_unit then None else Some u)"

subsection \<open>FightPairs and Battle: the state\<close>

text \<open>
  \<open>potentials\<close> and \<open>assignments\<close> are dictionaries keyed by unit; a set of targets is
  the list of its elements in insertion order, without duplicates. The two armies a
  \<open>FightPairs\<close> refers to are the battle's own.
\<close>

record FightPairs =
  potentials :: "(nat \<times> nat list) list"
  assignments :: "(nat \<times> nat) list"
  two_way_pairs :: "(nat \<times> nat) list"
  one_way_pairs :: "(nat \<times> nat) list"
  all_engaged :: "nat set"

record Battle =
  army_1 :: Army
  army_2 :: Army
  landscape :: Landscape
  fight_pairs :: FightPairs
  turns :: nat
  store :: "nat \<Rightarrow> Unit"

datatype Side = Army1 | Army2

definition get_army :: "Battle \<Rightarrow> Side \<Rightarrow> Army" where
  "get_army b s = (case s of Army1 \<Rightarrow> army_1 b | Army2 \<Rightarrow> army_2 b)"

definition map_army :: "Side \<Rightarrow> (Army \<Rightarrow> Army) \<Rightarrow> Battle \<Rightarrow> Battle" where
  "map_army s f b =
     (case s of Army1 \<Rightarrow> b\<lparr>army_1 := f (army_1 b)\<rparr> | Army2 \<Rightarrow> b\<lparr>army_2 := f (army_2 b)\<rparr>)"

definition map_unit :: "nat \<Rightarrow> (Unit \<Rightarrow> Unit) \<Rightarrow> Battle \<Rightarrow> Battle" where
  "map_unit u f b = b\<lparr>store := (store b)(u := f (store b u))\<rparr>"

subsection \<open>Army: setters and alterers\<close>

definition army_set_up :: "Side \<Rightarrow> real \<Rightarrow> Battle \<Rightarrow> Battle" where
  "army_set_up s ip b =
     (let b1 = map_army s (\<lambda>a. a\<lparr>file_units := sort_key fst (file_units a)\<rparr>) b
      in fold (\<lambda>u. map_unit u (set_up ip)) (units (get_army b1 s)) b1)"

definition change_all_units_morale :: "Side \<Rightarrow> real \<Rightarrow> Battle \<Rightarrow> Battle" where
  "change_all_units_morale s change b =
     fold (\<lambda>u. map_unit u (\<lambda>x. x\<lparr>morale := morale x + change\<rparr>))
       (deployed_units (get_army b s) @ reserves (get_army b s)) b"

definition move_unit_safely_away_from_enemy :: "Side \<Rightarrow> nat \<Rightarrow> Battle \<Rightarrow> Battle" where
  "move_unit_safely_away_from_enemy s enemy b =
     (case map_of (file_units (get_army b s)) (file_u (store b enemy)) of
        None \<Rightarrow> b
      | Some u \<Rightarrow> map_unit u (move_safely_away_from_pos (position (store b enemy))) b)"

definition deploy_reserve_to_file :: "Side \<Rightarrow> int \<Rightarrow> real \<Rightarrow> Side \<Rightarrow> Battle \<Rightarrow> Battle" where
  "deploy_reserve_to_file s f ref_pos other_army b =
     (case reserves (get_army b s) of
        [] \<Rightarrow> b
      | nu # rest \<Rightarrow>
          (let b1 = map_army s (\<lambda>a. a\<lparr>reserves := rest\<rparr>) b;
               b2 = map_unit nu (deploy_close_to f ref_pos) b1;
               b3 = move_unit_safely_away_from_enemy other_army nu b2
           in map_army s (\<lambda>a. a\<lparr>file_units := AList.update f nu (file_units a)\<rparr>) b3))"

definition remove_unit :: "Side \<Rightarrow> nat \<Rightarrow> Side \<Rightarrow> Battle \<Rightarrow> error + Battle" where
  "remove_unit s u other_army b =
     (let f = file_u (store b u) in
      case map_of (file_units (get_army b s)) f of
        None \<Rightarrow> Inl KeyError
      | Some v \<Rightarrow>
          if v \<noteq> u then Inl AssertionError
          else
            (let b1 = map_army s (\<lambda>a. a\<lparr>file_units := AList.delete f (file_units a)\<rparr>) b;
                 b2 = map_army s (\<lambda>a. a\<lparr>removed := removed a @ [u]\<rparr>) b1
             in Inr (deploy_reserve_to_file s f (position (store b2 u)) other_army b2)))"

definition slide_file_towards_centre :: "Side \<Rightarrow> int \<Rightarrow> Battle \<Rightarrow> error + Battle" where
  "slide_file_towards_centre s f b =
     bind_res (is_file_towards_centre_active (get_army b s) f) (\<lambda>active.
       if active then Inl AssertionError
       else
         (let new_file = (if f < 0 then f + 1 else f - 1) in
          case map_of (file_units (get_army b s)) f of
            None \<Rightarrow> Inl KeyError
          | Some u \<Rightarrow>
              (let b1 = map_army s (\<lambda>a. a\<lparr>file_units := AList.update new_file u (file_units a)\<rparr>) b;
                   b2 = map_unit u (\<lambda>x. x\<lparr>file_u := new_file\<rparr>) b1
               in Inr (map_army s (\<lambda>a. a\<lparr>file_units := AList.delete f (file_units a)\<rparr>) b2))))"

subsection \<open>FightPairs\<close>

definition empty_fight_pairs :: FightPairs where
  "empty_fight_pairs = \<lparr>potentials = [], assignments = [], two_way_pairs = [],
     one_way_pairs = [], all_engaged = {}\<rparr>"

definition reset :: "FightPairs \<Rightarrow> FightPairs" where
  "reset fp = fp\<lparr>potentials := [], assignments := [], two_way_pairs := [],
     one_way_pairs := [], all_engaged := {}\<rparr>"

text \<open>
  The traversal order of a set holding the elements \<open>ks\<close>. Whatever \<open>set_order\<close>
  answers, a traversal visits every element once; an answer that is no such
  enumeration is replaced by insertion order.
\<close>

definition set_iter :: "Env \<Rightarrow> nat list \<Rightarrow> nat list" where
  "set_iter env ks =
     (let d = remdups ks; r = set_order env d
      in if distinct r \<and> set r = set d then r else d)"

text \<open>\<open>s |= t\<close> on sets kept as duplicate-free lists.\<close>

definition set_union :: "nat list \<Rightarrow> nat list \<Rightarrow> nat list" where
  "set_union xs ys = xs @ filter (\<lambda>y. y \<notin> set xs) (remdups ys)"

definition get_valid_targets :: "Battle \<Rightarrow> int \<Rightarrow> nat \<Rightarrow> Side \<Rightarrow> nat list" where
  "get_valid_targets b f u opposing =
     (case map_of (file_units (get_army b opposing)) f of
        None \<Rightarrow> []
      | Some target \<Rightarrow> if is_in_range_of (store b u) (store b target) then [target] else [])"

definition add_single_potentials ::
  "Battle \<Rightarrow> int \<Rightarrow> nat \<Rightarrow> Side \<Rightarrow> FightPairs \<Rightarrow> FightPairs" where
  "add_single_potentials b f u opposing fp =
     (let targets = set_union (set_union (set_union []
                      (get_valid_targets b f u opposing))
                      (get_valid_targets b (f - 1) u opposing))
                      (get_valid_targets b (f + 1) u opposing)
      in if targets \<noteq> [] then fp\<lparr>potentials := AList.update u targets (potentials fp)\<rparr>
         else fp)"

definition add_all_potentials :: "Battle \<Rightarrow> FightPairs \<Rightarrow> FightPairs" where
  "add_all_potentials b fp =
     (let fp1 = fold (\<lambda>(f, u). add_single_potentials b f u Army2) (file_units (army_1 b)) fp
      in fold (\<lambda>(f, u). add_single_potentials b f u Army1) (file_units (army_2 b)) fp1)"

definition assign_if_unique_target :: "FightPairs \<Rightarrow> FightPairs" where
  "assign_if_unique_target fp =
     fold (\<lambda>(u, targets) fp1.
             case targets of
               [t] \<Rightarrow> fp1\<lparr>assignments := AList.update u t (assignments fp1),
                          potentials := AList.delete u (potentials fp1)\<rparr>
             | _ \<Rightarrow> fp1)
       (potentials fp) fp"

text \<open>\<open>{x1: y1, x2: y2, x3: y2}\<close> becomes \<open>{y1: {x1}, y2: {x2, x3}}\<close>.\<close>

definition invert_dictionary :: "(nat \<times> nat) list \<Rightarrow> (nat \<times> nat set) list" where
  "invert_dictionary init =
     fold (\<lambda>(k, v) output.
             AList.update v (case map_of output v of Some ks \<Rightarrow> ks \<union> {k} | None \<Rightarrow> {k}) output)
       init []"

type_synonym pair_key =
  "bool \<times> bool \<times> bool \<times> bool \<times> bool \<times> real \<times> real \<times> int \<times> int \<times> int \<times> int \<times> real"

text \<open>
  The key of \<open>assign_best_remaining\<close>; tuples are compared lexicographically, and
  \<open>False < True\<close>.
\<close>

definition sort_key_pair :: "Battle \<Rightarrow> FightPairs \<Rightarrow> nat \<Rightarrow> nat \<Rightarrow> pair_key" where
  "sort_key_pair b fp u target =
     (let assigned_to = invert_dictionary (assignments fp);
          frontal = is_in_front (store b u) (store b target);
          d = get_dist_to (store b u) (position (store b target));
          melee = (if frontal then d \<le> 1 + EPS else d \<le> 1 - SIDE_RANGE_PENALTY + EPS);
          attacker = (target \<in> (case map_of assigned_to u of Some ks \<Rightarrow> ks | None \<Rightarrow> {}));
          unassigned = (map_of (assignments fp) target = None)
      in (frontal \<and> melee, melee, frontal, attacker, unassigned,
          - d, - att_range (store b u), \<bar>file_u (store b u)\<bar>, \<bar>file_u (store b target)\<bar>,
          file_u (store b u), file_u (store b target), position (store b u)))"

text \<open>
  \<open>max\<close> over the tuples \<open>(key, attacker, target)\<close>: a later tuple replaces the running
  maximum when it is greater. Two tuples with equal keys are compared on their units,
  which have no order: TypeError, unless they are the same pair.
\<close>

definition max_step ::
  "pair_key \<times> nat \<times> nat \<Rightarrow> pair_key \<times> nat \<times> nat \<Rightarrow> error + pair_key \<times> nat \<times> nat" where
  "max_step c m =
     (if fst c = fst m then (if snd c = snd m then Inr m else Inl TypeError)
      else if fst m < fst c then Inr c else Inr m)"

fun py_max :: "(pair_key \<times> nat \<times> nat) list \<Rightarrow> error + pair_key \<times> nat \<times> nat" where
  "py_max [] = Inl ValueError"
| "py_max (c # cs) = fold_res max_step cs c"

definition candidates :: "Env \<Rightarrow> FightPairs \<Rightarrow> (nat \<times> nat) list" where
  "candidates env fp =
     concat (map (\<lambda>(att, targets). map (\<lambda>x. (att, x)) (set_iter env targets)) (potentials fp))"

definition assign_best_remaining :: "Env \<Rightarrow> Battle \<Rightarrow> FightPairs \<Rightarrow> error + FightPairs" where
  "assign_best_remaining env b fp =
     bind_res (py_max (map (\<lambda>(att, x). (sort_key_pair b fp att x, att, x)) (candidates env fp)))
       (\<lambda>(score, u, target).
          Inr (fp\<lparr>assignments := AList.update u target (assignments fp),
                  potentials := AList.delete u (potentials fp)\<rparr>))"

text \<open>\<open>while self._potentials: self.assign_best_remaining()\<close>.\<close>

lemma fold_res_max_step_mem:
  "fold_res max_step cs c = Inr m \<Longrightarrow> m \<in> insert c (set cs)"
proof (induction cs arbitrary: c)
  case Nil
  then show ?case by simp
next
  case (Cons x xs)
  then obtain c1 where s: "max_step x c = Inr c1" and r: "fold_res max_step xs c1 = Inr m"
    by (auto simp: bind_res_def split: sum.splits)
  from s have "c1 = x \<or> c1 = c"
    by (auto simp: max_step_def split: if_splits)
  with Cons.IH [OF r] show ?case by auto
qed

lemma py_max_mem: "py_max cs = Inr m \<Longrightarrow> m \<in> set cs"
  by (cases cs) (auto dest: fold_res_max_step_mem)

lemma candidates_attacker:
  "(u, x) \<in> set (candidates env fp) \<Longrightarrow> u \<in> fst ` set (potentials fp)"
  by (force simp: candidates_def)

lemma length_delete_less:
  "k \<in> fst ` set ps \<Longrightarrow> length (AList.delete k ps) < length ps"
proof -
  assume "k \<in> fst ` set ps"
  then obtain v where "(k, v) \<in> set ps" by auto
  then show ?thesis
    unfolding AList.delete_eq by (rule length_filter_less) simp
qed

lemma assign_best_remaining_chosen:
  assumes "assign_best_remaining env b fp = Inr fp1"
  shows "\<exists>u target. (u, target) \<in> set (candidates env fp) \<and>
           py_max (map (\<lambda>(att, x). (sort_key_pair b fp att x, att, x)) (candidates env fp))
             = Inr (sort_key_pair b fp u target, u, target) \<and>
           fp1 = fp\<lparr>assignments := AList.update u target (assignments fp),
                    potentials := AList.delete u (potentials fp)\<rparr>"
proof -
  from assms obtain score u target where
    m: "py_max (map (\<lambda>(att, x). (sort_key_pair b fp att x, att, x)) (candidates env fp))
          = Inr (score, u, target)"
    and fp1: "fp1 = fp\<lparr>assignments := AList.update u target (assignments fp),
                      potentials := AList.delete u (potentials fp)\<rparr>"
    by (auto simp: assign_best_remaining_def bind_res_def split: sum.splits prod.splits)
  from py_max_mem [OF m] have "(u, target) \<in> set (candidates env fp)"
    and "score = sort_key_pair b fp u target"
    by auto
  with m fp1 show ?thesis by blast
qed

lemma assign_best_remaining_shrinks:
  "assign_best_remaining env b fp = Inr fp1 \<Longrightarrow>
     length (potentials fp1) < length (potentials fp)"
proof -
  assume "assign_best_remaining env b fp = Inr fp1"
  from assign_best_remaining_chosen [OF this] obtain u target where
    c: "(u, target) \<in> set (candidates env fp)"
    and fp1: "fp1 = fp\<lparr>assignments := AList.update u target (assignments fp),
                      potentials := AList.delete u (potentials fp)\<rparr>"
    by blast
  from length_delete_less [OF candidates_attacker [OF c]] fp1 show ?thesis by simp
qed

function assign_loop :: "Env \<Rightarrow> Battle \<Rightarrow> FightPairs \<Rightarrow> error + FightPairs" where
  "assign_loop env b fp =
     (if potentials fp = [] then Inr fp
      else case assign_best_remaining env b fp of
             Inl e \<Rightarrow> Inl e
           | Inr fp1 \<Rightarrow> assign_loop env b fp1)"
  by pat_completeness auto
termination
  by (relation "measure (\<lambda>(env, b, fp). length (potentials fp))")
     (auto dest: assign_best_remaining_shrinks)

text \<open>
  \<open>remaining\<close> is the set of assigned units in traversal order: \<open>pop\<close> takes its head,
  \<open>remove\<close> raises KeyError on an absent element.
\<close>

function match_loop :: "nat list \<Rightarrow> FightPairs \<Rightarrow> error + FightPairs" where
  "match_loop [] fp = Inr fp"
| "match_loop (unit_A # remaining) fp =
     (case map_of (assignments fp) unit_A of
        None \<Rightarrow> Inl KeyError
      | Some unit_B \<Rightarrow>
          if map_of (assignments fp) unit_B = Some unit_A then
            (if unit_B \<in> set remaining
             then match_loop (removeAll unit_B remaining)
                    (fp\<lparr>two_way_pairs := two_way_pairs fp @ [(unit_A, unit_B)],
                        all_engaged := all_engaged fp \<union> {unit_A, unit_B}\<rparr>)
             else Inl KeyError)
          else match_loop remaining
                 (fp\<lparr>one_way_pairs := one_way_pairs fp @ [(unit_A, unit_B)],
                     all_engaged := all_engaged fp \<union> {unit_A, unit_B}\<rparr>))"
  by pat_completeness auto
termination
  by (relation "measure (\<lambda>(remaining, fp). length remaining)")
     (auto simp: less_Suc_eq_le)

definition match_into_pairs :: "Env \<Rightarrow> FightPairs \<Rightarrow> error + FightPairs" where
  "match_into_pairs env fp = match_loop (set_iter env (map fst (assignments fp))) fp"

definition assign_all :: "Env \<Rightarrow> Battle \<Rightarrow> FightPairs \<Rightarrow> error + FightPairs" where
  "assign_all env b fp =
     bind_res (assign_loop env b (assign_if_unique_target (add_all_potentials b (reset fp))))
       (match_into_pairs env)"

subsection \<open>Battle: construction and utilities\<close>

definition FILE_MEAN :: real where "FILE_MEAN = 0.5 * (FILE_SUPPORTED + FILE_VULNERABLE)"
definition FILE_DIFF :: real where "FILE_DIFF = FILE_SUPPORTED - FILE_VULNERABLE"

text \<open>\<open>Battle(army_1, army_2, landscape)\<close> with its \<open>__attrs_post_init__\<close>.\<close>

definition new_battle :: "Army \<Rightarrow> Army \<Rightarrow> Landscape \<Rightarrow> (nat \<Rightarrow> Unit) \<Rightarrow> Battle" where
  "new_battle a1 a2 l st =
     (let b = \<lparr>army_1 = a1, army_2 = a2, landscape = l, fight_pairs = empty_fight_pairs,
               turns = 0, store = st\<rparr>;
          ip = max (max (get_army_reach st a1) (get_army_reach st a2)) 5
      in army_set_up Army2 ip (army_set_up Army1 (- ip) b))"

definition iter_all_deployed :: "Battle \<Rightarrow> nat list" where
  "iter_all_deployed b = deployed_units (army_1 b) @ deployed_units (army_2 b)"

definition get_army_deployed_in :: "Battle \<Rightarrow> nat \<Rightarrow> error + Side" where
  "get_army_deployed_in b u =
     (if map_of (file_units (army_1 b)) (file_u (store b u)) = Some u then Inr Army1
      else if map_of (file_units (army_2 b)) (file_u (store b u)) = Some u then Inr Army2
      else Inl ValueError)"

text \<open>
  The source raises ValueError for an army that is neither of the two; a \<open>Side\<close> is
  always one of them.
\<close>

fun get_other_army :: "Side \<Rightarrow> Side" where
  "get_other_army Army1 = Army2"
| "get_other_army Army2 = Army1"

definition reset_unit_stance :: "nat \<Rightarrow> Battle \<Rightarrow> error + Battle" where
  "reset_unit_stance u b =
     bind_res (get_army_deployed_in b u) (\<lambda>s.
       Inr (map_unit u (\<lambda>x. x\<lparr>stance := stance_a (get_army b s)\<rparr>) b))"

definition call_neighbors_forward :: "nat \<Rightarrow> Battle \<Rightarrow> error + Battle" where
  "call_neighbors_forward u b =
     bind_res (get_army_deployed_in b u) (\<lambda>s.
       Inr (fold (\<lambda>neighbor b1.
                    if neighbor \<notin> all_engaged (fight_pairs b1)
                       \<and> speed (store b1 neighbor) \<ge> speed (store b1 u)
                    then map_unit neighbor (\<lambda>x. x\<lparr>stance := min_stance (stance x) NEUT\<rparr>) b1
                    else b1)
              (get_neighbors (get_army b s) (file_u (store b u)) False) b))"

subsection \<open>Battle: effective morale and power\<close>

definition morale_from_mean_clash_distance :: "real \<Rightarrow> real" where
  "morale_from_mean_clash_distance mean_dist =
     (if mean_dist > 0.5 then FILE_SUPPORTED
      else if mean_dist < - 0.5 then FILE_VULNERABLE
      else FILE_MEAN + mean_dist * FILE_DIFF)"

definition morale_from_contested_file ::
  "Battle \<Rightarrow> nat \<Rightarrow> int \<Rightarrow> Army \<Rightarrow> Army \<Rightarrow> error + real" where
  "morale_from_contested_file b u f army enemy =
     (case map_of (file_units enemy) f of
        None \<Rightarrow> Inl KeyError
      | Some e \<Rightarrow>
          (let ene_dist = get_signed_distance_to_unit (store b u) (store b e);
               own_dist = (case map_of (file_units army) f of
                             None \<Rightarrow> - RESERVE_DIST_BEHIND
                           | Some own \<Rightarrow> max (- RESERVE_DIST_BEHIND)
                                        (get_signed_distance_to_unit (store b u) (store b own)));
               weight = RESERVE_DIST_BEHIND - 0.5;
               mean_dist = (weight * ene_dist + own_dist) / (1 + weight);
               m = morale_from_mean_clash_distance mean_dist
           in Inr (if is_file_active army f then m else min 0 m)))"

definition get_morale_from_supporting_file :: "Battle \<Rightarrow> nat \<Rightarrow> int \<Rightarrow> error + real" where
  "get_morale_from_supporting_file b u f =
     bind_res (get_army_deployed_in b u) (\<lambda>s.
       let army = get_army b s; enemy = get_army b (get_other_army s)
       in if is_file_active enemy f then morale_from_contested_file b u f army enemy
          else if is_file_active army f then Inr FILE_SUPPORTED
          else Inr FILE_EMPTY)"

definition get_unit_eff_morale :: "Battle \<Rightarrow> nat \<Rightarrow> error + real" where
  "get_unit_eff_morale b u =
     bind_res (get_morale_from_supporting_file b u (file_u (store b u) + 1)) (\<lambda>m1.
     bind_res (get_morale_from_supporting_file b u (file_u (store b u) - 1)) (\<lambda>m2.
       Inr (max 0 (morale (store b u) + m1 + m2))))"

text \<open>
  \<open>x ** y\<close> on floats with \<open>x \<ge> 0\<close>, the only bases the battle raises to a power
  (an effective morale is a maximum with 0).
\<close>

definition py_pow :: "real \<Rightarrow> real \<Rightarrow> error + real" where
  "py_pow x y =
     (if x = 0 then (if y < 0 then Inl ZeroDivisionError else if y = 0 then Inr 1 else Inr 0)
      else Inr (x powr y))"

definition get_unit_power_from_morale :: "Battle \<Rightarrow> nat \<Rightarrow> error + real" where
  "get_unit_power_from_morale b u =
     bind_res (get_unit_eff_morale b u) (\<lambda>m.
     bind_res (py_pow m (1 + rigidity (store b u))) (\<lambda>p.
       Inr (- LOW_MORALE_POWER * (1 - p))))"

definition get_unit_eff_power :: "Battle \<Rightarrow> nat \<Rightarrow> error + real" where
  "get_unit_eff_power b u =
     (let p0 = power_u (store b u) + get_power_from_terrain (store b u) (landscape b)
      in bind_res (get_army_deployed_in b u) (\<lambda>s.
         bind_res (reserve_power (store b) (get_army b s)) (\<lambda>rp.
         bind_res (get_unit_power_from_morale b u) (\<lambda>pm.
           Inr (p0 + rp + pm)))))"

definition compute_fight_balance :: "Battle \<Rightarrow> nat \<Rightarrow> nat \<Rightarrow> error + real" where
  "compute_fight_balance b unit_A unit_B =
     bind_res (get_unit_eff_power b unit_A) (\<lambda>pa.
     bind_res (get_unit_eff_power b unit_B) (\<lambda>pb.
       Inr (2 powr ((pa - pb) / (2 * POWER_SCALE)))))"

definition get_unit_pos_desire :: "Battle \<Rightarrow> nat \<Rightarrow> error + real" where
  "get_unit_pos_desire b u =
     (let cover = get_mean_cover (landscape b) (file_u (store b u)) (position (store b u))
      in bind_res (get_unit_eff_power b u) (\<lambda>p. Inr (p + 10 * cover)))"

subsection \<open>Battle: tidy\<close>

definition change_morale_from_first_pursue :: "Battle \<Rightarrow> error + Battle" where
  "change_morale_from_first_pursue b =
     fold_res (\<lambda>u b1.
                 if at_end (store b1 u) \<and> \<not> pursuing (store b1 u)
                 then bind_res (get_army_deployed_in b1 u) (\<lambda>s.
                        Inr (change_all_units_morale (get_other_army s) PURSUE_MORALE b1))
                 else Inr b1)
       (iter_all_deployed b) b"

definition reduce_files :: "Battle \<Rightarrow> error + Battle" where
  "reduce_files b =
     fold_res (\<lambda>u b1.
                 if pursuing (store b1 u) \<and> file_u (store b1 u) \<noteq> 0
                 then bind_res (get_army_deployed_in b1 u) (\<lambda>s.
                        case get_blocking_unit (store b1) (get_army b1 (get_other_army s)) u of
                          Some enemy \<Rightarrow> Inr b1
                        | None \<Rightarrow>
                            bind_res (is_file_towards_centre_active (get_army b1 s)
                                        (file_u (store b1 u))) (\<lambda>active.
                              if active then Inr b1
                              else slide_file_towards_centre s (file_u (store b1 u)) b1))
                 else Inr b1)
       (iter_all_deployed b) b"

definition update_status :: "Battle \<Rightarrow> error + Battle" where
  "update_status b =
     fold_res (\<lambda>u b0.
                 bind_res (reset_unit_stance u b0) (\<lambda>b1.
                 bind_res (get_unit_eff_morale b1 u) (\<lambda>m.
                   if m \<le> 0 \<or> at_home (store b1 u)
                   then bind_res (get_army_deployed_in b1 u) (\<lambda>s.
                          remove_unit s u (get_other_army s) b1)
                   else if at_end (store b1 u) \<and> m > 0
                     then Inr (map_unit u (\<lambda>x. x\<lparr>pursuing := True\<rparr>) b1)
                   else Inr (map_unit u (\<lambda>x. x\<lparr>pursuing := False\<rparr>) b1))))
       (iter_all_deployed b) b"

definition tidy :: "Battle \<Rightarrow> error + Battle" where
  "tidy b =
     bind_res (change_morale_from_first_pursue b) (\<lambda>b1.
     bind_res (reduce_files b1) update_status)"

subsection \<open>Battle: fighting\<close>

definition inflict_casualties :: "Env \<Rightarrow> nat \<Rightarrow> real \<Rightarrow> Battle \<Rightarrow> Battle" where
  "inflict_casualties env u balance b =
     (let cover = 1 - get_mean_cover (landscape b) (file_u (store b u)) (position (store b u))
      in map_unit u (\<lambda>x. x\<lparr>morale := morale x - DELTA_T env * cover * balance\<rparr>) b)"

definition push_from_winner :: "Env \<Rightarrow> nat \<Rightarrow> nat \<Rightarrow> real \<Rightarrow> Battle \<Rightarrow> error + Battle" where
  "push_from_winner env winner loser balance b =
     bind_res (py_div (balance - 1) (1 + rigidity (store b loser))) (\<lambda>q.
       let loser_speed_scale = min 1 q;
           d0 = min (get_eff_speed (store b winner) (landscape b))
                    (get_eff_speed (store b loser) (landscape b) * loser_speed_scale);
           d = d0 * (BASE_SPEED * DELTA_T env * (if moving_to_pos (store b winner) then 1 else - 1));
           b1 = map_unit loser (move_by d) b
       in if \<not> is_in_range_of (store b1 winner) (store b1 loser)
             \<or> \<not> is_in_range_of (store b1 loser) (store b1 winner)
          then Inr (map_unit winner (move_by d) b1)
          else Inr b1)"

definition push_from_fight :: "Env \<Rightarrow> nat \<Rightarrow> nat \<Rightarrow> real \<Rightarrow> Battle \<Rightarrow> error + Battle" where
  "push_from_fight env unit_A unit_B balance b =
     (if balance > 1 then push_from_winner env unit_A unit_B balance b
      else if balance < 1 then push_from_winner env unit_B unit_A (1 / balance) b
      else Inr b)"

text \<open>A balance is a power of two, hence never zero: \<open>1 / balance\<close> cannot raise.\<close>

definition fight_two_way :: "Env \<Rightarrow> nat \<Rightarrow> nat \<Rightarrow> Battle \<Rightarrow> error + Battle" where
  "fight_two_way env unit_A unit_B b =
     bind_res (compute_fight_balance b unit_A unit_B) (\<lambda>balance.
       let b1 = inflict_casualties env unit_A (1 / balance) b;
           b2 = inflict_casualties env unit_B balance b1
       in push_from_fight env unit_A unit_B balance b2)"

definition fight_one_way :: "Env \<Rightarrow> nat \<Rightarrow> nat \<Rightarrow> Battle \<Rightarrow> error + Battle" where
  "fight_one_way env unit_A unit_B b =
     bind_res (compute_fight_balance b unit_A unit_B) (\<lambda>balance.
       let b1 = inflict_casualties env unit_B balance b;
           b2 = map_unit unit_B (\<lambda>x. x\<lparr>stance := AGGR\<rparr>) b1
       in call_neighbors_forward unit_B b2)"

definition fight :: "Env \<Rightarrow> Battle \<Rightarrow> error + Battle" where
  "fight env b =
     bind_res (assign_all env b (fight_pairs b)) (\<lambda>fp.
     bind_res (fold_res (\<lambda>(unit_A, unit_B). fight_two_way env unit_A unit_B)
                 (two_way_pairs fp) (b\<lparr>fight_pairs := fp\<rparr>)) (\<lambda>b1.
       fold_res (\<lambda>(unit_A, unit_B). fight_one_way env unit_A unit_B) (one_way_pairs fp) b1))"

subsection \<open>Battle: moving\<close>

type_synonym move_key = "int \<times> real \<times> real \<times> int \<times> real \<times> int \<times> real"

definition move_order_key :: "Unit \<Rightarrow> move_key" where
  "move_order_key x =
     (stance_value (stance x), - speed x, att_range x, \<bar>file_u x\<bar>, - \<bar>position x\<bar>,
      file_u x, position x)"

text \<open>\<open>sorted\<close> is stable, and so is \<open>sort_key\<close>.\<close>

definition get_move_order :: "Battle \<Rightarrow> nat list" where
  "get_move_order b = sort_key (\<lambda>u. move_order_key (store b u)) (iter_all_deployed b)"

definition move_towards_haltingly :: "Env \<Rightarrow> nat \<Rightarrow> real \<Rightarrow> real \<Rightarrow> Battle \<Rightarrow> error + Battle" where
  "move_towards_haltingly env u target spd b =
     bind_res (get_army_deployed_in b u) (\<lambda>s.
       let army = get_army b s;
           backwards_unit = get_backwards_neighbor (store b) army u;
           lag = (\<lambda>b'. case backwards_unit of
                          None \<Rightarrow> 0
                        | Some bu \<Rightarrow> get_dist_to (store b' u) (position (store b' bu)));
           old_pos = position (store b u)
       in bind_res (get_unit_pos_desire b u) (\<lambda>old_desire.
          let old_lag = lag b;
              b1 = map_unit u (move_towards env target spd) b
          in bind_res (get_unit_pos_desire b1 u) (\<lambda>new_desire.
             let new_lag = lag b1
             in bind_res (py_div (old_desire - new_desire) (get_dist_to (store b1 u) old_pos))
                  (\<lambda>g.
                let engaged = filter (\<lambda>n. n \<in> all_engaged (fight_pairs b1))
                                (get_neighbors army (file_u (store b1 u)) False);
                    power_grad = g * 0.5 ^ length engaged
                in Inr (map_unit u (confirm_move power_grad old_pos old_lag new_lag) b1)))))"

definition move_unit_towards_in_stance :: "Env \<Rightarrow> nat \<Rightarrow> real \<Rightarrow> Battle \<Rightarrow> error + Battle" where
  "move_unit_towards_in_stance env u target b =
     (let quick = get_eff_speed (store b u) (landscape b)
      in bind_res (get_army_deployed_in b u) (\<lambda>s.
         bind_res (get_cohesive_speed (store b) (get_army b s) u target (landscape b)) (\<lambda>slow.
           case stance (store b u) of
             AGGR \<Rightarrow> Inr (map_unit u (move_towards env target quick) b)
           | NEUT \<Rightarrow> Inr (map_unit u (move_towards env target
                              (if is_charge_range_of (store b u) target then quick else slow)) b)
           | DEFN \<Rightarrow> move_towards_haltingly env u target slow b)))"

definition move_one :: "Env \<Rightarrow> nat \<Rightarrow> Battle \<Rightarrow> error + Battle" where
  "move_one env u b =
     bind_res (get_army_deployed_in b u) (\<lambda>s.
       case get_blocking_unit (store b) (get_army b (get_other_army s)) u of
         None \<Rightarrow> Inr (map_unit u (move_towards env (- init_pos (store b u))
                         (get_eff_speed (store b u) (landscape b))) b)
       | Some enemy \<Rightarrow>
           if \<not> is_in_range_of (store b u) (store b enemy)
           then move_unit_towards_in_stance env u
                  (get_position_to_attack_target (store b u) (store b enemy)) b
           else Inr b)"

definition move :: "Env \<Rightarrow> Battle \<Rightarrow> error + Battle" where
  "move env b = fold_res (move_one env) (get_move_order b) b"

subsection \<open>Battle: the core loop\<close>

definition do_turn :: "Env \<Rightarrow> Battle \<Rightarrow> error + Battle" where
  "do_turn env b = bind_res (tidy b) (\<lambda>b1. bind_res (fight env b1) (move env))"

definition is_battle_ended :: "Battle \<Rightarrow> bool" where
  "is_battle_ended b =
     (if defeated (army_1 b) then True
      else if defeated (army_2 b) then True
      else if list_all (\<lambda>u. halted (store b u)) (iter_all_deployed b) then True
      else if turns b > 1000 then True
      else False)"

definition decide_winner :: "Battle \<Rightarrow> BattleOutcome" where
  "decide_winner b =
     (if defeated (army_1 b) \<and> defeated (army_2 b) then BOTH_LOST
      else if \<not> defeated (army_1 b) \<and> defeated (army_2 b) then WIN_1
      else if defeated (army_1 b) \<and> \<not> defeated (army_2 b) then WIN_2
      else STALEMATE)"

subsection \<open>Positions within bounds and rounded\<close>

text \<open>
  \<open>in_bounds u\<close>: the position lies in \<open>[- |init_pos|, |init_pos|]\<close>. \<open>rounded x\<close>: \<open>x\<close>
  equals its value rounded to \<open>POS_DEC_DIG\<close> decimal places. \<open>moved_ok u u'\<close> relates a
  unit before and after an operation: the home position is the same, and the position is
  where it was or, for a rounded home position, within bounds and rounded.
\<close>

definition in_bounds :: "Unit \<Rightarrow> bool" where
  "in_bounds u = (- \<bar>init_pos u\<bar> \<le> position u \<and> position u \<le> \<bar>init_pos u\<bar>)"

definition rounded :: "real \<Rightarrow> bool" where
  "rounded x = (py_round x POS_DEC_DIG = x)"

definition position_ok :: "Unit \<Rightarrow> bool" where
  "position_ok u = (in_bounds u \<and> rounded (position u))"

definition moved_ok :: "Unit \<Rightarrow> Unit \<Rightarrow> bool" where
  "moved_ok u u' =
     (init_pos u' = init_pos u \<and>
      (position u' = position u \<or> (rounded (init_pos u) \<longrightarrow> position_ok u')))"

definition store_ok :: "(nat \<Rightarrow> Unit) \<Rightarrow> (nat \<Rightarrow> Unit) \<Rightarrow> bool" where
  "store_ok st st' = (\<forall>i. moved_ok (st i) (st' i))"

lemma EPS_val: "EPS = 1 / 2000"
  by (simp add: EPS_def POS_DEC_DIG_def power3_eq_cube)

lemma py_round_cases:
  "\<exists>k. py_round x n = of_int k / 10 ^ n \<and> \<lfloor>x * 10 ^ n\<rfloor> \<le> k \<and>
       (k = \<lfloor>x * 10 ^ n\<rfloor> \<or> k = \<lfloor>x * 10 ^ n\<rfloor> + 1 \<and> of_int \<lfloor>x * 10 ^ n\<rfloor> < x * 10 ^ n)"
  by (auto simp: py_round_def Let_def)

lemma py_round_of_int: "py_round (of_int k / 10 ^ n) n = of_int k / 10 ^ n"
  by (simp add: py_round_def Let_def)

lemma py_round_idem: "py_round (py_round x n) n = py_round x n"
proof -
  from py_round_cases [of x n] obtain k where "py_round x n = of_int k / 10 ^ n" by blast
  then show ?thesis by (simp add: py_round_of_int)
qed

lemma py_round_bounds:
  fixes m :: int
  assumes "- (of_int m / 10 ^ n) \<le> x" "x \<le> of_int m / 10 ^ n"
  shows "- (of_int m / 10 ^ n) \<le> py_round x n \<and> py_round x n \<le> of_int m / 10 ^ n"
proof -
  let ?y = "x * 10 ^ n"
  from assms have y: "of_int (- m) \<le> ?y" "?y \<le> of_int m"
    by (simp_all add: field_simps)
  from py_round_cases [of x n] obtain k where k: "py_round x n = of_int k / 10 ^ n"
    and lo: "\<lfloor>?y\<rfloor> \<le> k"
    and hi: "k = \<lfloor>?y\<rfloor> \<or> k = \<lfloor>?y\<rfloor> + 1 \<and> of_int \<lfloor>?y\<rfloor> < ?y"
    by blast
  from y(1) have "- m \<le> \<lfloor>?y\<rfloor>" by (simp only: le_floor_iff)
  with lo have 1: "- m \<le> k" by simp
  have 2: "k \<le> m"
  proof -
    from y(2) have fm: "\<lfloor>?y\<rfloor> \<le> m" by (simp add: floor_le_iff)
    from hi show ?thesis
    proof
      assume "k = \<lfloor>?y\<rfloor>"
      with fm show ?thesis by simp
    next
      assume a: "k = \<lfloor>?y\<rfloor> + 1 \<and> of_int \<lfloor>?y\<rfloor> < ?y"
      with y(2) have "(of_int \<lfloor>?y\<rfloor> :: real) < of_int m" by linarith
      then have "\<lfloor>?y\<rfloor> < m" by (simp only: of_int_less_iff)
      with a show ?thesis by simp
    qed
  qed
  from 1 2 have "of_int (- m) \<le> (of_int k :: real)" "(of_int k :: real) \<le> of_int m"
    by (simp_all only: of_int_le_iff)
  then have "of_int (- m) / 10 ^ n \<le> (of_int k :: real) / 10 ^ n"
    and "(of_int k :: real) / 10 ^ n \<le> of_int m / 10 ^ n"
    by (simp_all only: divide_right_mono zero_le_power zero_le_numeral)
  then show ?thesis
    unfolding k by simp
qed

lemma rounded_abs_grid:
  assumes "rounded x"
  shows "\<exists>m::int. \<bar>x\<bar> = of_int m / 10 ^ POS_DEC_DIG"
proof -
  from py_round_cases [of x POS_DEC_DIG] assms obtain k :: int
    where "x = of_int k / 10 ^ POS_DEC_DIG"
    by (auto simp: rounded_def)
  then have "\<bar>x\<bar> = of_int \<bar>k\<bar> / 10 ^ POS_DEC_DIG" by simp
  then show ?thesis ..
qed

lemma init_pos_cap_position [simp]: "init_pos (cap_position u) = init_pos u"
  by (simp add: cap_position_def Let_def)

lemma rounded_cap_position: "rounded (position (cap_position u))"
  by (simp add: cap_position_def Let_def rounded_def py_round_idem)

lemma in_bounds_cap_position:
  assumes "rounded (init_pos u)"
  shows "in_bounds (cap_position u)"
proof -
  from rounded_abs_grid [OF assms] obtain m :: int
    where m: "\<bar>init_pos u\<bar> = of_int m / 10 ^ POS_DEC_DIG" by blast
  let ?x = "max (- \<bar>init_pos u\<bar>) (min (position u) \<bar>init_pos u\<bar>)"
  have "- \<bar>init_pos u\<bar> \<le> ?x" "?x \<le> \<bar>init_pos u\<bar>" by auto
  then have "- (of_int m / 10 ^ POS_DEC_DIG) \<le> ?x" "?x \<le> of_int m / 10 ^ POS_DEC_DIG"
    unfolding m by simp_all
  from py_round_bounds [OF this] show ?thesis
    by (simp add: in_bounds_def cap_position_def Let_def m)
qed

lemma position_ok_cap_position: "rounded (init_pos u) \<Longrightarrow> position_ok (cap_position u)"
  by (simp add: position_ok_def in_bounds_cap_position rounded_cap_position)

lemma position_ok_move_by: "rounded (init_pos u) \<Longrightarrow> position_ok (move_by d u)"
  unfolding move_by_def by (rule position_ok_cap_position) simp

lemma position_ok_move_to: "rounded (init_pos u) \<Longrightarrow> position_ok (move_to p u)"
  unfolding move_to_def by (rule position_ok_cap_position) simp

lemma position_ok_move_towards:
  "rounded (init_pos u) \<Longrightarrow>
     move_towards env t spd u = u \<or> position_ok (move_towards env t spd u)"
  by (simp add: move_towards_def position_ok_move_to)

lemma position_ok_deploy_close_to:
  "rounded (init_pos u) \<Longrightarrow> position_ok (deploy_close_to f r u)"
  by (simp add: deploy_close_to_def Let_def position_ok_move_to)

lemma position_ok_move_safely_away_from_pos:
  "rounded (init_pos u) \<Longrightarrow>
     move_safely_away_from_pos r u = u \<or> position_ok (move_safely_away_from_pos r u)"
  by (simp add: move_safely_away_from_pos_def position_ok_move_to)

lemma position_confirm_move:
  "position (confirm_move g old_pos ol nl u) = position u
     \<or> position (confirm_move g old_pos ol nl u) = old_pos"
  by (simp add: confirm_move_def Let_def)

lemma init_pos_confirm_move [simp]: "init_pos (confirm_move g old_pos ol nl u) = init_pos u"
  by (simp add: confirm_move_def Let_def)

lemma set_up_position:
  "position (set_up ip u) = ip + (if ip < 0 then EPS else - EPS) \<and> init_pos (set_up ip u) = ip"
  by (simp add: set_up_def Let_def moving_to_pos_def)

lemma in_bounds_set_up: "EPS \<le> 2 * \<bar>ip\<bar> \<Longrightarrow> in_bounds (set_up ip u)"
  by (auto simp: in_bounds_def set_up_position EPS_val)

lemma init_pos_move [simp]:
  "init_pos (move_by d u) = init_pos u"
  "init_pos (move_to p u) = init_pos u"
  "init_pos (move_towards env t spd u) = init_pos u"
  "init_pos (deploy_close_to f r u) = init_pos u"
  "init_pos (move_safely_away_from_pos r u) = init_pos u"
  by (simp_all add: move_by_def move_to_def move_towards_def deploy_close_to_def
        move_safely_away_from_pos_def Let_def)

lemma moved_ok_refl [simp]: "moved_ok u u"
  by (simp add: moved_ok_def)

lemma moved_ok_trans: "moved_ok u u' \<Longrightarrow> moved_ok u' u'' \<Longrightarrow> moved_ok u u''"
  by (auto simp: moved_ok_def position_ok_def in_bounds_def)

lemma moved_ok_same:
  "init_pos u' = init_pos u \<Longrightarrow> position u' = position u \<Longrightarrow> moved_ok u u'"
  by (simp add: moved_ok_def)

lemma moved_ok_fields [simp]:
  "moved_ok u (u\<lparr>morale := m\<rparr>)" "moved_ok u (u\<lparr>stance := s\<rparr>)"
  "moved_ok u (u\<lparr>pursuing := q\<rparr>)" "moved_ok u (u\<lparr>halted := h\<rparr>)"
  "moved_ok u (u\<lparr>file_u := f\<rparr>)"
  by (simp_all add: moved_ok_def)

lemma moved_ok_move [simp]:
  "moved_ok u (move_by d u)" "moved_ok u (move_to p u)"
  "moved_ok u (move_towards env t spd u)" "moved_ok u (deploy_close_to f r u)"
  "moved_ok u (move_safely_away_from_pos r u)"
  using position_ok_move_towards [of u env t spd]
    position_ok_move_safely_away_from_pos [of u r]
  by (auto simp: moved_ok_def position_ok_move_by position_ok_move_to
        position_ok_deploy_close_to)

lemma position_ok_cong:
  "init_pos u' = init_pos u \<Longrightarrow> position u' = position u \<Longrightarrow> position_ok u' = position_ok u"
  by (simp add: position_ok_def in_bounds_def)

lemma moved_ok_confirm_move [simp]:
  "moved_ok u (confirm_move g (position u) ol nl (move_towards env t spd u))"
proof -
  let ?m = "move_towards env t spd u"
  let ?c = "confirm_move g (position u) ol nl ?m"
  have i: "init_pos ?c = init_pos ?m" "init_pos ?m = init_pos u" by simp_all
  from position_confirm_move [of g "position u" ol nl ?m]
  show ?thesis
  proof
    assume p: "position ?c = position ?m"
    have "moved_ok u ?m" by simp
    with position_ok_cong [OF i(1) p] i show ?thesis
      by (auto simp: moved_ok_def p)
  next
    assume "position ?c = position u"
    with i show ?thesis by (simp add: moved_ok_def)
  qed
qed

lemma store_ok_refl [simp]: "store_ok st st"
  by (simp add: store_ok_def)

lemma store_ok_trans: "store_ok st st' \<Longrightarrow> store_ok st' st'' \<Longrightarrow> store_ok st st''"
  unfolding store_ok_def by (blast intro: moved_ok_trans)

lemma store_ok_upd [simp]:
  "store_ok st st' \<Longrightarrow> moved_ok (st' u) v \<Longrightarrow> store_ok st (st'(u := v))"
  unfolding store_ok_def by (auto intro: moved_ok_trans)

subsection \<open>What a turn leaves alone\<close>

text \<open>
  A turn never touches the turn counter, it only moves units between the three
  collections of their army, and it changes positions only through the capped moves.
  \<open>army_frame a a'\<close>: if the keys of the dictionary of \<open>a\<close> are distinct (as the keys of
  a Python dictionary are), so are those of \<open>a'\<close>, and the units of \<open>a'\<close> are those of
  \<open>a\<close>, each as often. The first of these facts is what makes the loop of \<open>Battle.do\<close>
  terminate.
\<close>

lemma bind_res_InrD: "bind_res m f = Inr y \<Longrightarrow> \<exists>x. m = Inr x \<and> f x = Inr y"
  by (cases m) (auto simp: bind_res_def)

lemma bind_res_Inr [simp]: "bind_res (Inr x) f = f x"
  by (simp add: bind_res_def)

lemma bind_res_Inl [simp]: "bind_res (Inl e) f = Inl e"
  by (simp add: bind_res_def)

definition army_frame :: "Army \<Rightarrow> Army \<Rightarrow> bool" where
  "army_frame a a' =
     (distinct (map fst (file_units a)) \<longrightarrow>
        distinct (map fst (file_units a')) \<and> mset (units a') = mset (units a))"

definition frame :: "Battle \<Rightarrow> Battle \<Rightarrow> bool" where
  "frame b b' =
     (turns b' = turns b \<and> army_frame (army_1 b) (army_1 b') \<and>
      army_frame (army_2 b) (army_2 b') \<and> store_ok (store b) (store b'))"

lemma army_frame_refl [simp]: "army_frame a a"
  by (simp add: army_frame_def)

lemma army_frame_trans: "army_frame a a' \<Longrightarrow> army_frame a' a'' \<Longrightarrow> army_frame a a''"
  by (auto simp: army_frame_def)

lemma frame_refl [simp]: "frame b b"
  by (simp add: frame_def)

lemma frame_trans: "frame b b' \<Longrightarrow> frame b' b'' \<Longrightarrow> frame b b''"
  by (auto simp: frame_def intro: army_frame_trans store_ok_trans)

lemma frame_map_unit [simp]:
  "frame b b1 \<Longrightarrow> moved_ok (store b1 u) (f (store b1 u)) \<Longrightarrow> frame b (map_unit u f b1)"
  by (simp add: frame_def map_unit_def)

lemma store_map_army [simp]: "store (map_army s f b) = store b"
  by (cases s) (simp_all add: map_army_def)

lemma store_map_unit [simp]: "store (map_unit u f b) = (store b)(u := f (store b u))"
  by (simp add: map_unit_def)

lemma frame_fight_pairs [simp]: "frame b (b\<lparr>fight_pairs := fp\<rparr>)"
  by (simp add: frame_def)

lemma frame_map_army:
  "army_frame (get_army b s) (f (get_army b s)) \<Longrightarrow> frame b (map_army s f b)"
  by (cases s) (auto simp: frame_def map_army_def get_army_def)

lemma frame_fold:
  "(\<And>x s. frame s (f x s)) \<Longrightarrow> frame s (fold f xs s)"
  by (induction xs arbitrary: s) (auto intro: frame_trans)

lemma frame_fold_res:
  assumes step: "\<And>x s s'. f x s = Inr s' \<Longrightarrow> frame s s'"
  shows "fold_res f xs s = Inr s' \<Longrightarrow> frame s s'"
proof (induction xs arbitrary: s)
  case Nil
  then show ?case by simp
next
  case (Cons x xs)
  from Cons.prems obtain s1 where 1: "f x s = Inr s1" and 2: "fold_res f xs s1 = Inr s'"
    by (auto dest: bind_res_InrD)
  from step [OF 1] Cons.IH [OF 2] show ?case
    by (rule frame_trans)
qed

lemma mset_snd_update_new:
  "k \<notin> fst ` set xs \<Longrightarrow>
     image_mset snd (mset (AList.update k v xs)) = add_mset v (image_mset snd (mset xs))"
  by (induction xs) auto

lemma mset_snd_delete:
  "distinct (map fst xs) \<Longrightarrow> map_of xs k = Some v \<Longrightarrow>
     add_mset v (image_mset snd (mset (AList.delete k xs))) = image_mset snd (mset xs)"
proof (induction xs)
  case Nil
  then show ?case by simp
next
  case (Cons x xs)
  show ?case
  proof (cases "fst x = k")
    case True
    with Cons.prems have "k \<notin> fst ` set xs" and "snd x = v" by auto
    with True show ?thesis by (cases x) simp
  next
    case False
    with Cons show ?thesis by (cases x) auto
  qed
qed

lemma frame_change_all_units_morale [simp]: "frame b (change_all_units_morale s c b)"
  unfolding change_all_units_morale_def by (rule frame_fold) simp

lemma frame_move_unit_safely [simp]: "frame b (move_unit_safely_away_from_enemy s e b)"
  by (simp add: move_unit_safely_away_from_enemy_def split: option.splits)

lemma get_army_map_unit [simp]: "get_army (map_unit u f b) s = get_army b s"
  by (cases s) (simp_all add: get_army_def map_unit_def)

lemma get_army_map_army_same [simp]: "get_army (map_army s f b) s = f (get_army b s)"
  by (cases s) (simp_all add: get_army_def map_army_def)

lemma get_army_move_unit_safely [simp]:
  "get_army (move_unit_safely_away_from_enemy s' e b) s = get_army b s"
  by (simp add: move_unit_safely_away_from_enemy_def split: option.splits)

lemma army_frame_deploy:
  assumes "reserves a = nu # rest" "\<not> is_file_active a f"
  shows "army_frame a (a\<lparr>reserves := rest, file_units := AList.update f nu (file_units a)\<rparr>)"
proof -
  from assms(2) have "f \<notin> fst ` set (file_units a)"
    by (simp add: is_file_active_def map_of_eq_None_iff)
  with assms(1) show ?thesis
    by (simp add: army_frame_def units_def deployed_units_def mset_snd_update_new
          AList.distinct_update)
qed

lemma frame_deploy_reserve_to_file:
  assumes "\<not> is_file_active (get_army b s) f"
  shows "frame b (deploy_reserve_to_file s f p other b)"
proof (cases "reserves (get_army b s)")
  case Nil
  then show ?thesis by (simp add: deploy_reserve_to_file_def)
next
  case (Cons nu rest)
  let ?b1 = "map_army s (\<lambda>a. a\<lparr>reserves := rest, file_units := AList.update f nu (file_units a)\<rparr>) b"
  have 1: "frame b ?b1"
    by (rule frame_map_army) (rule army_frame_deploy [OF Cons assms])
  have "frame b (map_army s (\<lambda>a. a\<lparr>file_units := AList.update f nu (file_units a)\<rparr>)
           (move_unit_safely_away_from_enemy other nu
              (map_unit nu (deploy_close_to f p) (map_army s (\<lambda>a. a\<lparr>reserves := rest\<rparr>) b))))"
    using 1 by (cases s)
      (simp_all add: frame_def map_army_def map_unit_def move_unit_safely_away_from_enemy_def
         get_army_def split: option.splits)
  with Cons show ?thesis by (simp add: deploy_reserve_to_file_def Let_def)
qed

lemma map_army_map_army [simp]: "map_army s g (map_army s f b) = map_army s (g \<circ> f) b"
  by (cases s) (simp_all add: map_army_def)

lemma army_frame_remove:
  assumes "map_of (file_units a) f = Some u"
  shows "army_frame a (a\<lparr>file_units := AList.delete f (file_units a), removed := removed a @ [u]\<rparr>)"
  using assms mset_snd_delete [of "file_units a" f u]
  by (auto simp: army_frame_def units_def deployed_units_def AList.distinct_delete)

lemma frame_remove_unit:
  assumes "remove_unit s u other b = Inr b'"
  shows "frame b b'"
proof -
  let ?f = "file_u (store b u)"
  let ?b2 = "map_army s ((\<lambda>a. a\<lparr>removed := removed a @ [u]\<rparr>) \<circ>
                         (\<lambda>a. a\<lparr>file_units := AList.delete ?f (file_units a)\<rparr>)) b"
  from assms have look: "map_of (file_units (get_army b s)) ?f = Some u"
    and b': "b' = deploy_reserve_to_file s ?f (position (store ?b2 u)) other ?b2"
    by (auto simp: remove_unit_def Let_def split: option.splits if_splits)
  have 1: "frame b ?b2"
    using army_frame_remove [OF look] by (intro frame_map_army) (simp add: comp_def)
  have "\<not> is_file_active (get_army ?b2 s) ?f"
    using AList.delete_notin_dom [of ?f "file_units (get_army b s)"]
    by (simp add: is_file_active_def map_of_eq_None_iff)
  from frame_trans [OF 1 frame_deploy_reserve_to_file [OF this]] b' show ?thesis by simp
qed

lemma army_frame_slide:
  assumes "map_of (file_units a) f = Some u" "\<not> is_file_active a nf" "nf \<noteq> f"
  shows "army_frame a (a\<lparr>file_units := AList.delete f (AList.update nf u (file_units a))\<rparr>)"
proof -
  from assms(2) have "nf \<notin> fst ` set (file_units a)"
    by (simp add: is_file_active_def map_of_eq_None_iff)
  with AList.dom_delete_subset [of f "file_units a"]
  have nf: "nf \<notin> fst ` set (AList.delete f (file_units a))" by blast
  show ?thesis
    using assms(1) mset_snd_delete [of "file_units a" f u] mset_snd_update_new [OF nf, of u]
    by (auto simp: army_frame_def units_def deployed_units_def AList.delete_update [OF assms(3)]
          AList.distinct_update AList.distinct_delete)
qed

lemma frame_slide_file_towards_centre:
  assumes "slide_file_towards_centre s f b = Inr b'"
  shows "frame b b'"
proof -
  let ?nf = "if f < 0 then f + 1 else f - 1"
  from assms obtain u where act: "\<not> is_file_active (get_army b s) ?nf"
    and look: "map_of (file_units (get_army b s)) f = Some u"
    and b': "b' = map_army s (\<lambda>a. a\<lparr>file_units := AList.delete f (file_units a)\<rparr>)
                    (map_unit u (\<lambda>x. x\<lparr>file_u := ?nf\<rparr>)
                      (map_army s (\<lambda>a. a\<lparr>file_units := AList.update ?nf u (file_units a)\<rparr>) b))"
    by (auto simp: slide_file_towards_centre_def is_file_towards_centre_active_def Let_def
          split: option.splits if_splits)
  have ne: "?nf \<noteq> f" by simp
  have "frame b (map_army s (\<lambda>a. a\<lparr>file_units :=
                  AList.delete f (AList.update ?nf u (file_units a))\<rparr>) b)"
    by (rule frame_map_army) (rule army_frame_slide [OF look act ne])
  then show ?thesis unfolding b'
    by (cases s) (simp_all add: frame_def map_army_def map_unit_def)
qed

lemma frame_reset_unit_stance: "reset_unit_stance u b = Inr b' \<Longrightarrow> frame b b'"
  by (auto simp: reset_unit_stance_def dest!: bind_res_InrD)

lemma frame_call_neighbors_forward: "call_neighbors_forward u b = Inr b' \<Longrightarrow> frame b b'"
  by (auto simp: call_neighbors_forward_def dest!: bind_res_InrD intro!: frame_fold)

lemma frame_change_morale_from_first_pursue:
  "change_morale_from_first_pursue b = Inr b' \<Longrightarrow> frame b b'"
  unfolding change_morale_from_first_pursue_def
  by (erule frame_fold_res [rotated]) (auto dest!: bind_res_InrD split: if_splits)


lemma frame_reduce_files: "reduce_files b = Inr b' \<Longrightarrow> frame b b'"
  unfolding reduce_files_def
  apply (erule frame_fold_res [rotated])
  apply (auto dest!: bind_res_InrD split: if_splits option.splits)
  apply (erule frame_slide_file_towards_centre)
  done

lemma frame_update_status: "update_status b = Inr b' \<Longrightarrow> frame b b'"
  unfolding update_status_def
proof (erule frame_fold_res [rotated])
  fix u s s'
  assume "bind_res (reset_unit_stance u s) (\<lambda>b1.
            bind_res (get_unit_eff_morale b1 u) (\<lambda>m.
              if m \<le> 0 \<or> at_home (store b1 u)
              then bind_res (get_army_deployed_in b1 u) (\<lambda>s. remove_unit s u (get_other_army s) b1)
              else if at_end (store b1 u) \<and> m > 0
                then Inr (map_unit u (\<lambda>x. x\<lparr>pursuing := True\<rparr>) b1)
              else Inr (map_unit u (\<lambda>x. x\<lparr>pursuing := False\<rparr>) b1))) = Inr s'"
  then obtain b1 where 1: "reset_unit_stance u s = Inr b1"
    and r: "bind_res (get_unit_eff_morale b1 u) (\<lambda>m.
              if m \<le> 0 \<or> at_home (store b1 u)
              then bind_res (get_army_deployed_in b1 u) (\<lambda>s. remove_unit s u (get_other_army s) b1)
              else if at_end (store b1 u) \<and> m > 0
                then Inr (map_unit u (\<lambda>x. x\<lparr>pursuing := True\<rparr>) b1)
              else Inr (map_unit u (\<lambda>x. x\<lparr>pursuing := False\<rparr>) b1)) = Inr s'"
    by (blast dest: bind_res_InrD)
  from bind_res_InrD [OF r]
  have 2: "(\<exists>sd. remove_unit sd u (get_other_army sd) b1 = Inr s')
            \<or> s' = map_unit u (\<lambda>x. x\<lparr>pursuing := True\<rparr>) b1
            \<or> s' = map_unit u (\<lambda>x. x\<lparr>pursuing := False\<rparr>) b1"
    by (auto split: if_splits dest: bind_res_InrD)
  from 2 have "frame b1 s'"
    by (auto elim: frame_remove_unit)
  with frame_reset_unit_stance [OF 1] show "frame s s'"
    by (rule frame_trans)
qed

lemma frame_tidy: "tidy b = Inr b' \<Longrightarrow> frame b b'"
  by (auto simp: tidy_def dest!: bind_res_InrD
        intro: frame_trans [OF frame_change_morale_from_first_pursue
                 frame_trans [OF frame_reduce_files frame_update_status]])

lemma frame_inflict_casualties [simp]: "frame b (inflict_casualties env u x b)"
  by (simp add: inflict_casualties_def Let_def)

lemma frame_push_from_winner: "push_from_winner env w l x b = Inr b' \<Longrightarrow> frame b b'"
  by (auto simp: push_from_winner_def Let_def dest!: bind_res_InrD split: if_splits)

lemma frame_push_from_fight: "push_from_fight env w l x b = Inr b' \<Longrightarrow> frame b b'"
  by (auto simp: push_from_fight_def split: if_splits elim: frame_push_from_winner)

lemma frame_fight_two_way: "fight_two_way env ua ub b = Inr b' \<Longrightarrow> frame b b'"
proof -
  assume "fight_two_way env ua ub b = Inr b'"
  then obtain x where "push_from_fight env ua ub x
      (inflict_casualties env ub x (inflict_casualties env ua (1 / x) b)) = Inr b'"
    by (auto simp: fight_two_way_def Let_def dest!: bind_res_InrD)
  from frame_push_from_fight [OF this] show ?thesis
    by (rule frame_trans [OF frame_trans [OF frame_inflict_casualties frame_inflict_casualties]])
qed

lemma frame_fight_one_way: "fight_one_way env ua ub b = Inr b' \<Longrightarrow> frame b b'"
proof -
  assume "fight_one_way env ua ub b = Inr b'"
  then obtain x where "call_neighbors_forward ub
      (map_unit ub (\<lambda>x. x\<lparr>stance := AGGR\<rparr>) (inflict_casualties env ub x b)) = Inr b'"
    by (auto simp: fight_one_way_def Let_def dest!: bind_res_InrD)
  from frame_call_neighbors_forward [OF this] show ?thesis
    by (rule frame_trans [rotated]) simp
qed

lemma frame_fight: "fight env b = Inr b' \<Longrightarrow> frame b b'"
proof -
  assume "fight env b = Inr b'"
  then obtain fp b1 where
    1: "fold_res (\<lambda>(unit_A, unit_B). fight_two_way env unit_A unit_B)
          (two_way_pairs fp) (b\<lparr>fight_pairs := fp\<rparr>) = Inr b1"
    and 2: "fold_res (\<lambda>(unit_A, unit_B). fight_one_way env unit_A unit_B)
          (one_way_pairs fp) b1 = Inr b'"
    by (auto simp: fight_def dest!: bind_res_InrD)
  have "frame (b\<lparr>fight_pairs := fp\<rparr>) b1"
    using 1 by (rule frame_fold_res [rotated]) (auto elim: frame_fight_two_way)
  moreover have "frame b1 b'"
    using 2 by (rule frame_fold_res [rotated]) (auto elim: frame_fight_one_way)
  ultimately show ?thesis
    by (rule frame_trans [OF frame_trans [OF frame_fight_pairs]])
qed

lemma frame_move_towards_haltingly:
  "move_towards_haltingly env u t spd b = Inr b' \<Longrightarrow> frame b b'"
  by (auto simp: move_towards_haltingly_def Let_def frame_def map_unit_def
        dest!: bind_res_InrD)

lemma frame_move_unit_towards_in_stance:
  "move_unit_towards_in_stance env u t b = Inr b' \<Longrightarrow> frame b b'"
  by (auto simp: move_unit_towards_in_stance_def Let_def dest!: bind_res_InrD
        split: Stance.splits elim: frame_move_towards_haltingly)

lemma frame_move_one: "move_one env u b = Inr b' \<Longrightarrow> frame b b'"
  by (auto simp: move_one_def dest!: bind_res_InrD split: option.splits if_splits
        elim: frame_move_unit_towards_in_stance)

lemma frame_move: "move env b = Inr b' \<Longrightarrow> frame b b'"
  unfolding move_def by (erule frame_fold_res [rotated]) (rule frame_move_one)

lemma frame_do_turn: "do_turn env b = Inr b' \<Longrightarrow> frame b b'"
  by (auto simp: do_turn_def dest!: bind_res_InrD
        intro: frame_trans [OF frame_tidy frame_trans [OF frame_fight frame_move]])

text \<open>
  \<open>while not self.is_battle_ended(): self.turns += 1; self.do_turn(verbosity)\<close>, then
  \<open>return self.decide_winner()\<close>. The battle object is mutated in place, so the final
  state is returned with the outcome.
\<close>

function do_loop :: "Env \<Rightarrow> Battle \<Rightarrow> error + Battle" where
  "do_loop env b =
     (if is_battle_ended b then Inr b
      else case do_turn env (b\<lparr>turns := turns b + 1\<rparr>) of
             Inl e \<Rightarrow> Inl e
           | Inr b1 \<Rightarrow> do_loop env b1)"
  by pat_completeness auto
termination
proof (relation "measure (\<lambda>(env, b). 1001 - turns b)")
  fix env b b1
  assume "\<not> is_battle_ended b" and "do_turn env (b\<lparr>turns := turns b + 1\<rparr>) = Inr b1"
  then have "turns b \<le> 1000" and "turns b1 = turns b + 1"
    by (auto simp: is_battle_ended_def frame_def split: if_splits dest!: frame_do_turn)
  then show "((env, b1), (env, b)) \<in> measure (\<lambda>(env, b). 1001 - turns b)"
    by simp
qed simp

definition do :: "Env \<Rightarrow> Battle \<Rightarrow> error + BattleOutcome \<times> Battle" where
  "do env b = bind_res (do_loop env b) (\<lambda>b1. Inr (decide_winner b1, b1))"

subsection \<open>The movement confirmation as the specification words it\<close>

text \<open>
  The specification of \<open>confirm_move\<close>, read literally: as the source, except that the
  gradient is scaled whenever the lag increased (\<open>old_lag < new_lag\<close>), by
  \<open>1 / (1 - new_lag)\<close> with \<open>new_lag\<close> capped just below 1.
\<close>

definition confirm_move_spec :: "real \<Rightarrow> real \<Rightarrow> real \<Rightarrow> real \<Rightarrow> Unit \<Rightarrow> Unit" where
  "confirm_move_spec gradient old_pos old_lag new_lag u =
     (if get_dist_to u (init_pos u) < MIN_DEPLOY_DIST then u\<lparr>halted := False\<rparr>
      else if old_lag < 1 \<and> 1 \<le> new_lag then u\<lparr>position := old_pos, halted := True\<rparr>
      else
        (let scaled = (if old_lag < new_lag
                       then gradient * (1 / (1 - min new_lag (1 - EPS))) else gradient)
         in if scaled > HALT_POWER_GRADIENT then u\<lparr>position := old_pos, halted := True\<rparr>
            else if position u \<noteq> old_pos then u\<lparr>halted := False\<rparr>
            else u))"

subsection \<open>Concrete units, landscapes and battles\<close>

definition pike :: UnitType where
  "pike = \<lparr>name_t = ''pike'', power_t = 100, rigidity_t = 0.2, speed_t = 1, att_range_t = 1\<rparr>"

definition archer :: UnitType where
  "archer = \<lparr>name_t = ''archer'', power_t = 60, rigidity_t = 0, speed_t = 1, att_range_t = 3\<rparr>"

definition flat :: Landscape where
  "flat = \<lparr>get_height = (\<lambda>f p. 0), get_roughness = (\<lambda>f p. 0),
     get_mean_scaled_roughness = (\<lambda>f p s. 0), get_mean_cover = (\<lambda>f p. 0)\<rparr>"

definition env0 :: Env where
  "env0 = \<lparr>DELTA_T = 0.1, set_order = (\<lambda>ks. ks)\<rparr>"

definition duel_store :: "nat \<Rightarrow> Unit" where
  "duel_store i =
     (if i = 10 then (new_unit pike NEUT 0)\<lparr>init_pos := - 5, position := - 0.5\<rparr>
      else (new_unit pike NEUT 0)\<lparr>init_pos := 5, position := 0.5\<rparr>)"

definition duel :: Battle where
  "duel = \<lparr>army_1 = \<lparr>name_a = ''Greek'', stance_a = NEUT, color = ''DarkBlue'',
                       file_units = [(0, 10)], reserves = [], removed = []\<rparr>,
            army_2 = \<lparr>name_a = ''Macedon'', stance_a = NEUT, color = ''DarkRed'',
                       file_units = [(0, 20)], reserves = [], removed = []\<rparr>,
            landscape = flat, fight_pairs = empty_fight_pairs, turns = 0, store = duel_store\<rparr>"

text \<open>An army that only has reserves: pikes of power 100.\<close>

definition camp_store :: "nat \<Rightarrow> Unit" where
  "camp_store i = new_unit pike NEUT 0"

definition camp :: "nat list \<Rightarrow> Army" where
  "camp rs = \<lparr>name_a = ''Greek'', stance_a = NEUT, color = ''DarkBlue'',
               file_units = [], reserves = rs, removed = []\<rparr>"

text \<open>A unit that has advanced to 3, half a step beyond where it stood (2.5).\<close>

definition advanced_unit :: Unit where
  "advanced_unit = (new_unit pike DEFN 0)\<lparr>init_pos := - 10, position := 3, halted := True\<rparr>"

section \<open>Properties\<close>

subsection \<open>Auxiliary facts\<close>


lemma duel_eff_power_10: "get_unit_eff_power duel 10 = Inr 100"
  by (simp add: get_unit_eff_power_def duel_def duel_store_def new_unit_def pike_def flat_def
        power_u_def get_power_from_terrain_def unit_get_height_def get_army_deployed_in_def
        reserve_power_def reserve_total_def py_log_def get_army_def
        get_unit_power_from_morale_def get_unit_eff_morale_def
        get_morale_from_supporting_file_def is_file_active_def py_pow_def rigidity_def
        FILE_EMPTY_def LOW_MORALE_POWER_def RESERVES_SOFT_CAP_def)

lemma duel_eff_power_20: "get_unit_eff_power duel 20 = Inr 100"
  by (simp add: get_unit_eff_power_def duel_def duel_store_def new_unit_def pike_def flat_def
        power_u_def get_power_from_terrain_def unit_get_height_def get_army_deployed_in_def
        reserve_power_def reserve_total_def py_log_def get_army_def
        get_unit_power_from_morale_def get_unit_eff_morale_def
        get_morale_from_supporting_file_def is_file_active_def py_pow_def rigidity_def
        FILE_EMPTY_def LOW_MORALE_POWER_def RESERVES_SOFT_CAP_def)

lemma duel_balance: "compute_fight_balance duel 10 20 = Inr 1"
  by (simp add: compute_fight_balance_def duel_eff_power_10 duel_eff_power_20)

lemma ln_diff_less:
  fixes x y :: real
  assumes "0 < x" "x < y"
  shows "ln y - ln x < (y - x) / x" and "(y - x) / y < ln y - ln x"
proof -
  have 1: "ln (y / x) < y / x - 1"
    using assms ln_le_minus_one [of "y / x"] ln_eq_minus_one [of "y / x"]
    by (auto simp: less_le)
  have 2: "ln (x / y) < x / y - 1"
    using assms ln_le_minus_one [of "x / y"] ln_eq_minus_one [of "x / y"]
    by (auto simp: less_le)
  from 1 assms show "ln y - ln x < (y - x) / x"
    by (simp add: ln_div diff_divide_distrib)
  from 2 assms show "(y - x) / y < ln y - ln x"
    by (simp add: ln_div diff_divide_distrib)
qed

lemma ln_slopes_decrease:
  fixes x y z :: real
  assumes "0 < x" "x < y" "y < z"
  shows "(ln z - ln y) * (y - x) < (ln y - ln x) * (z - y)"
proof -
  have "(ln z - ln y) * (y - x) < ((z - y) / y) * (y - x)"
    using ln_diff_less(1) [of y z] assms by (intro mult_strict_right_mono) auto
  also have "\<dots> = ((y - x) / y) * (z - y)" by simp
  also have "\<dots> < (ln y - ln x) * (z - y)"
    using ln_diff_less(2) [of x y] assms by (intro mult_strict_right_mono) auto
  finally show ?thesis .
qed

lemma reserve_power_eq:
  "reserve_power st a =
     (if reserve_total st a \<le> - RESERVES_SOFT_CAP then Inl ValueError
      else Inr (RESERVES_POWER * RESERVES_SOFT_CAP * ln (1 + reserve_total st a / RESERVES_SOFT_CAP)))"
  by (simp add: reserve_power_def py_log_def RESERVES_SOFT_CAP_def field_simps)

lemma scale_diff: "(c * l3 - c * l2) * d = c * ((l3 - l2) * d)" for c :: real
  by (simp add: algebra_simps)


lemma compute_fight_balance_InrD:
  "compute_fight_balance b ua ub = Inr x \<Longrightarrow>
     \<exists>pa pb. get_unit_eff_power b ua = Inr pa \<and> get_unit_eff_power b ub = Inr pb \<and>
       x = 2 powr ((pa - pb) / (2 * POWER_SCALE))"
  by (auto simp: compute_fight_balance_def dest!: bind_res_InrD)

lemma compute_fight_balance_swap:
  assumes "compute_fight_balance b ua ub = Inr x"
  shows "compute_fight_balance b ub ua = Inr (1 / x)"
proof -
  from compute_fight_balance_InrD [OF assms] obtain pa pb where
    p: "get_unit_eff_power b ua = Inr pa" "get_unit_eff_power b ub = Inr pb"
    and x: "x = 2 powr ((pa - pb) / (2 * POWER_SCALE))"
    by blast
  have "1 / x = 2 powr (- ((pa - pb) / (2 * POWER_SCALE)))"
    unfolding x by (simp add: powr_minus_divide)
  also have "- ((pa - pb) / (2 * POWER_SCALE)) = (pb - pa) / (2 * POWER_SCALE)"
    by (simp add: POWER_SCALE_def diff_divide_distrib)
  finally show ?thesis
    using p by (simp add: compute_fight_balance_def)
qed

lemma compute_fight_balance_pos: "compute_fight_balance b ua ub = Inr x \<Longrightarrow> 0 < x"
  by (auto dest!: compute_fight_balance_InrD)

lemma inflict_casualties_commute:
  "ua \<noteq> ub \<Longrightarrow>
     inflict_casualties env ua x (inflict_casualties env ub y b)
       = inflict_casualties env ub y (inflict_casualties env ua x b)"
  by (simp add: inflict_casualties_def map_unit_def Let_def fun_upd_twist)

lemma push_from_fight_swap:
  "0 < x \<Longrightarrow> push_from_fight env ub ua (1 / x) b = push_from_fight env ua ub x b"
  by (simp add: push_from_fight_def)

lemma fight_two_way_swap:
  assumes "compute_fight_balance b ua ub = Inr x" "ua \<noteq> ub"
  shows "fight_two_way env ub ua b = fight_two_way env ua ub b"
  using assms compute_fight_balance_swap [OF assms(1)] compute_fight_balance_pos [OF assms(1)]
  by (simp add: fight_two_way_def Let_def push_from_fight_swap
        inflict_casualties_commute [of ua ub])

lemma confirm_move_spec_agrees:
  "old_lag < 1 - EPS \<or> new_lag \<le> old_lag \<Longrightarrow>
     confirm_move g old_pos old_lag new_lag u = confirm_move_spec g old_pos old_lag new_lag u"
  by (auto simp: confirm_move_def confirm_move_spec_def Let_def min_def)

subsection \<open>Outcome of a battle\<close>

text \<open>
  C1. \<open>decide_winner\<close> answers both-lost exactly when neither army has a deployed unit,
  win-1 exactly when army 1 has deployed units and army 2 has none, win-2 exactly when
  army 2 has deployed units and army 1 has none, and stalemate exactly when both armies
  still have deployed units.
\<close>

theorem decide_winner_outcome:
  "(decide_winner b = BOTH_LOST \<longleftrightarrow>
      deployed_units (army_1 b) = [] \<and> deployed_units (army_2 b) = []) \<and>
   (decide_winner b = WIN_1 \<longleftrightarrow>
      deployed_units (army_1 b) \<noteq> [] \<and> deployed_units (army_2 b) = []) \<and>
   (decide_winner b = WIN_2 \<longleftrightarrow>
      deployed_units (army_2 b) \<noteq> [] \<and> deployed_units (army_1 b) = []) \<and>
   (decide_winner b = STALEMATE \<longleftrightarrow>
      deployed_units (army_1 b) \<noteq> [] \<and> deployed_units (army_2 b) \<noteq> [])"
  by (simp add: decide_winner_def defeated_def deployed_units_def)

subsection \<open>Movement confirmation\<close>

text \<open>
  C8. \<open>confirm_move\<close> at a unit far from home whose lag grows from 1.5 to 2 with a
  gradient of 0.02: the lag increased, so the specified behaviour scales the gradient by
  \<open>1 / (1 - 0.9995) = 2000\<close> to 40, above the halt threshold of 20, restores the
  position and sets halted. The source compares \<open>old_lag\<close> with the capped \<open>new_lag\<close>,
  does not scale, keeps the move and clears halted.
\<close>

theorem confirm_move_unscaled_beyond_cap:
  "confirm_move 0.02 2.5 1.5 2 advanced_unit = advanced_unit\<lparr>halted := False\<rparr> \<and>
   confirm_move_spec 0.02 2.5 1.5 2 advanced_unit
     = advanced_unit\<lparr>position := 2.5, halted := True\<rparr>"
  by (simp add: confirm_move_def confirm_move_spec_def advanced_unit_def new_unit_def
        get_dist_to_def MIN_DEPLOY_DIST_def EPS_val HALT_POWER_GRADIENT_def Let_def)

subsection \<open>Reserve power\<close>

text \<open>
  C9. \<open>reserve_power\<close> is \<open>RESERVES_POWER * RESERVES_SOFT_CAP * ln (1 + total /
  RESERVES_SOFT_CAP)\<close>, where \<open>total\<close> is the sum of the reserves' base powers (the
  logarithm is defined when \<open>total > - RESERVES_SOFT_CAP\<close>, as for all non-negative
  powers; otherwise the source raises); it is 0 for an empty reserve queue, strictly
  increasing in \<open>total\<close>, and strictly concave: over \<open>t1 < t2 < t3\<close> the gain per point
  from \<open>t2\<close> to \<open>t3\<close> is less than the gain per point from \<open>t1\<close> to \<open>t2\<close>.
\<close>

theorem reserve_power_soft_cap:
  "reserve_power st a =
     (if reserve_total st a \<le> - RESERVES_SOFT_CAP then Inl ValueError
      else Inr (RESERVES_POWER * RESERVES_SOFT_CAP
                  * ln (1 + reserve_total st a / RESERVES_SOFT_CAP))) \<and>
   (reserves a = [] \<longrightarrow> reserve_power st a = Inr 0) \<and>
   (reserve_power st1 a1 = Inr p1 \<and> reserve_power st2 a2 = Inr p2 \<and>
    reserve_total st1 a1 < reserve_total st2 a2 \<longrightarrow> p1 < p2) \<and>
   (reserve_power st1 a1 = Inr p1 \<and> reserve_power st2 a2 = Inr p2 \<and>
    reserve_power st3 a3 = Inr p3 \<and>
    reserve_total st1 a1 < reserve_total st2 a2 \<and> reserve_total st2 a2 < reserve_total st3 a3 \<longrightarrow>
      (p3 - p2) * (reserve_total st2 a2 - reserve_total st1 a1)
        < (p2 - p1) * (reserve_total st3 a3 - reserve_total st2 a2))"
proof (intro conjI impI)
  show "reserve_power st a =
     (if reserve_total st a \<le> - RESERVES_SOFT_CAP then Inl ValueError
      else Inr (RESERVES_POWER * RESERVES_SOFT_CAP
                  * ln (1 + reserve_total st a / RESERVES_SOFT_CAP)))"
    by (rule reserve_power_eq)
next
  assume "reserves a = []"
  then show "reserve_power st a = Inr 0"
    by (simp add: reserve_power_eq reserve_total_def RESERVES_SOFT_CAP_def)
next
  let ?t1 = "reserve_total st1 a1" and ?t2 = "reserve_total st2 a2"
  assume "reserve_power st1 a1 = Inr p1 \<and> reserve_power st2 a2 = Inr p2 \<and> ?t1 < ?t2"
  then have lt: "?t1 < ?t2" and pos: "- 500 < ?t1"
    and p: "p1 = 500 / 6 * ln (1 + ?t1 / 500)" "p2 = 500 / 6 * ln (1 + ?t2 / 500)"
    by (auto simp: reserve_power_eq RESERVES_SOFT_CAP_def RESERVES_POWER_def
          split: if_splits)
  from lt pos have "ln (1 + ?t1 / 500) < ln (1 + ?t2 / 500)"
    by (subst ln_less_cancel_iff) auto
  then show "p1 < p2"
    unfolding p by simp
next
  let ?t1 = "reserve_total st1 a1" and ?t2 = "reserve_total st2 a2"
    and ?t3 = "reserve_total st3 a3"
  let ?x = "1 + ?t1 / 500" and ?y = "1 + ?t2 / 500" and ?z = "1 + ?t3 / 500"
  assume "reserve_power st1 a1 = Inr p1 \<and> reserve_power st2 a2 = Inr p2 \<and>
    reserve_power st3 a3 = Inr p3 \<and> ?t1 < ?t2 \<and> ?t2 < ?t3"
  then have lt: "?t1 < ?t2" "?t2 < ?t3" and pos: "- 500 < ?t1"
    and p: "p1 = 500 / 6 * ln ?x" "p2 = 500 / 6 * ln ?y" "p3 = 500 / 6 * ln ?z"
    by (auto simp: reserve_power_eq RESERVES_SOFT_CAP_def RESERVES_POWER_def
          split: if_splits)
  have d: "?y - ?x = (?t2 - ?t1) / 500" "?z - ?y = (?t3 - ?t2) / 500"
    by (simp_all add: diff_divide_distrib)
  have "(ln ?z - ln ?y) * (?y - ?x) < (ln ?y - ln ?x) * (?z - ?y)"
    using lt pos by (intro ln_slopes_decrease) auto
  then have "(ln ?z - ln ?y) * (?t2 - ?t1) / 500 < (ln ?y - ln ?x) * (?t3 - ?t2) / 500"
    unfolding d by simp
  then have "(ln ?z - ln ?y) * (?t2 - ?t1) < (ln ?y - ln ?x) * (?t3 - ?t2)"
    by (simp only: divide_less_cancel)
  then have "500 / 6 * ((ln ?z - ln ?y) * (?t2 - ?t1)) < 500 / 6 * ((ln ?y - ln ?x) * (?t3 - ?t2))"
    by (intro mult_strict_left_mono) auto
  then show "(p3 - p2) * (?t2 - ?t1) < (p2 - p1) * (?t3 - ?t2)"
    unfolding p scale_diff .
qed

theorem reserve_power_soft_cap_witness:
  "reserve_power camp_store (camp []) = Inr 0 \<and>
   reserve_power camp_store (camp [10]) = Inr (500 / 6 * ln (1 + 100 / 500)) \<and>
   reserve_power camp_store (camp [10, 20]) = Inr (500 / 6 * ln (1 + 200 / 500)) \<and>
   (0 :: real) < 500 / 6 * ln (1 + 100 / 500) \<and>
   500 / 6 * ln (1 + 100 / 500) < (500 / 6 * ln (1 + 200 / 500) :: real) \<and>
   (500 / 6 * ln (1 + 200 / 500) - 500 / 6 * ln (1 + 100 / 500)) * (100 - 0)
     < (500 / 6 * ln (1 + 100 / 500) - 0) * (200 - (100 :: real))"
proof -
  have t: "reserve_total camp_store (camp []) = 0" "reserve_total camp_store (camp [10]) = 100"
    "reserve_total camp_store (camp [10, 20]) = 200"
    by (simp_all add: reserve_total_def camp_def camp_store_def new_unit_def pike_def power_u_def)
  have r: "reserve_power camp_store (camp []) = Inr 0"
    "reserve_power camp_store (camp [10]) = Inr (500 / 6 * ln (1 + 100 / 500))"
    "reserve_power camp_store (camp [10, 20]) = Inr (500 / 6 * ln (1 + 200 / 500))"
    by (simp_all add: reserve_power_eq t RESERVES_SOFT_CAP_def RESERVES_POWER_def)
  show ?thesis
    using r t
      reserve_power_soft_cap [of camp_store "camp []" camp_store "camp []" 0
        camp_store "camp [10]" "500 / 6 * ln (1 + 100 / 500)"
        camp_store "camp [10, 20]" "500 / 6 * ln (1 + 200 / 500)"]
      reserve_power_soft_cap [of camp_store "camp []" camp_store "camp [10]"
        "500 / 6 * ln (1 + 100 / 500)" camp_store "camp [10, 20]" "500 / 6 * ln (1 + 200 / 500)"
        camp_store "camp [10, 20]" "500 / 6 * ln (1 + 200 / 500)"]
    by simp
qed

subsection \<open>Fight balance\<close>

text \<open>
  C10. The fight balances of two units are reciprocals: when the balance of A against B
  is \<open>x\<close>, the balance of B against A is \<open>1 / x\<close> and their product is 1; and a two-way
  fight gives the same result whichever unit of the pair is listed first.
\<close>

theorem fight_balance_reciprocal:
  "(compute_fight_balance b ua ub = Inr x \<longrightarrow>
      compute_fight_balance b ub ua = Inr (1 / x) \<and> x * (1 / x) = 1) \<and>
   (compute_fight_balance b ua ub = Inr x \<and> compute_fight_balance b ub ua = Inr y \<longrightarrow>
      x * y = 1 \<and> 1 / x = y) \<and>
   (compute_fight_balance b ua ub = Inr x \<and> ua \<noteq> ub \<longrightarrow>
      fight_two_way env ub ua b = fight_two_way env ua ub b)"
  using compute_fight_balance_swap [of b ua ub x] compute_fight_balance_pos [of b ua ub x]
    fight_two_way_swap [of b ua ub x env]
  by auto

theorem fight_balance_reciprocal_witness:
  "compute_fight_balance duel 10 20 = Inr 1 \<and> compute_fight_balance duel 20 10 = Inr 1 \<and>
   fight_two_way env0 20 10 duel = fight_two_way env0 10 20 duel"
  using duel_balance fight_balance_reciprocal [of duel 10 20 1 1 env0]
  by simp

end
